theory Spec2Isabelle
  imports Main
begin

section \<open>JavaScript values reaching the booking engine\<close>

text \<open>
  The request fields arrive from a parsed JSON body, so at run time they are arbitrary
  JSON values, whatever the TypeScript interface \<open>BookingRequest\<close> declares. Strings are
  sequences of code units below 256; numbers are the integral ones.
\<close>

datatype jsval =
    JUndefined
  | JNull
  | JBool bool
  | JNum int
  | JStr string
  | JArr "jsval list"
  | JObj "(string \<times> jsval) list"

text \<open>Every value thrown in the modelled code is an \<open>Error\<close> instance carrying a message.\<close>

datatype exn = Error (message_of: string)

text \<open>The operand of \<open>!x\<close>: ToBoolean.\<close>

fun truthy :: "jsval \<Rightarrow> bool" where
  "truthy JUndefined = False"
| "truthy JNull = False"
| "truthy (JBool b) = b"
| "truthy (JNum n) = (n \<noteq> 0)"
| "truthy (JStr s) = (s \<noteq> [])"
| "truthy (JArr vs) = True"
| "truthy (JObj kvs) = True"

fun typeof_string :: "jsval \<Rightarrow> bool" where
  "typeof_string (JStr s) = True"
| "typeof_string v = False"

definition isWhiteSpace :: "char \<Rightarrow> bool" where
  "isWhiteSpace c = (of_char c \<in> {9, 10, 11, 12, 13, 32, 160 :: nat})"

definition trim :: "string \<Rightarrow> string" where
  "trim s = rev (dropWhile isWhiteSpace (rev (dropWhile isWhiteSpace s)))"

text \<open>\<open>String.prototype.includes\<close> and \<open>startsWith\<close>.\<close>

definition startsWith :: "string \<Rightarrow> string \<Rightarrow> bool" where
  "startsWith s t = (take (length t) s = t)"

fun str_includes :: "string \<Rightarrow> string \<Rightarrow> bool" where
  "str_includes [] t = (t = [])"
| "str_includes (c # cs) t = (startsWith (c # cs) t \<or> str_includes cs t)"

subsection \<open>Decimal and JSON text\<close>

definition digit :: "nat \<Rightarrow> char" where
  "digit d = ''0123456789abcdef'' ! d"

function decimal :: "nat \<Rightarrow> string" where
  "decimal n = (if n < 10 then [digit n] else decimal (n div 10) @ [digit (n mod 10)])"
  by pat_completeness auto
termination
  by (relation "measure id") auto

text \<open>
  Number::toString of an integer, all its digits written out, as JavaScript does for a
  magnitude below \<open>10^21\<close>; from there on JavaScript writes an exponent, which is not
  modelled. The numbers the program itself prints (hours and date fields) are small.
\<close>

definition Number_toString :: "int \<Rightarrow> string" where
  "Number_toString n = (if n < 0 then ''-'' @ decimal (nat (- n)) else decimal (nat n))"

text \<open>Left-padding with zeros, \<open>padStart(w, '0')\<close>.\<close>

definition zero_pad :: "nat \<Rightarrow> nat \<Rightarrow> string" where
  "zero_pad w n = replicate (w - length (decimal n)) (CHR ''0'') @ decimal n"

fun join :: "string \<Rightarrow> string list \<Rightarrow> string" where
  "join sep [] = []"
| "join sep [x] = x"
| "join sep (x # y # ys) = x @ sep @ join sep (y # ys)"

text \<open>
  \<open>QuoteJSONString\<close>: the two-character escapes, the six-character escape with four
  hexadecimal digits for the other control characters, every other code unit as it is.
\<close>

definition quote_unit :: "char \<Rightarrow> string" where
  "quote_unit c =
     (let n = (of_char c :: nat) in
      if n = 8 then [CHR 0x5C, CHR ''b'']
      else if n = 9 then [CHR 0x5C, CHR ''t'']
      else if n = 10 then [CHR 0x5C, CHR ''n'']
      else if n = 12 then [CHR 0x5C, CHR ''f'']
      else if n = 13 then [CHR 0x5C, CHR ''r'']
      else if n = 34 then [CHR 0x5C, CHR 0x22]
      else if n = 92 then [CHR 0x5C, CHR 0x5C]
      else if n < 32 then [CHR 0x5C, CHR ''u'', CHR ''0'', CHR ''0'', digit (n div 16), digit (n mod 16)]
      else [c])"

definition QuoteJSONString :: "string \<Rightarrow> string" where
  "QuoteJSONString s = [CHR 0x22] @ concat (map quote_unit s) @ [CHR 0x22]"

text \<open>
  \<open>JSON.stringify\<close>. The result \<open>None\<close> is JavaScript's \<open>undefined\<close>: a property with
  that value is left out of an object and written \<open>null\<close> in an array.
\<close>

fun JSON_stringify :: "jsval \<Rightarrow> string option"
  and stringify_elements :: "jsval list \<Rightarrow> string list"
  and stringify_members :: "(string \<times> jsval) list \<Rightarrow> string list" where
  "JSON_stringify JUndefined = None"
| "JSON_stringify JNull = Some ''null''"
| "JSON_stringify (JBool b) = Some (if b then ''true'' else ''false'')"
| "JSON_stringify (JNum n) = Some (Number_toString n)"
| "JSON_stringify (JStr s) = Some (QuoteJSONString s)"
| "JSON_stringify (JArr vs) = Some (''['' @ join '','' (stringify_elements vs) @ '']'')"
| "JSON_stringify (JObj kvs) = Some (''{'' @ join '','' (stringify_members kvs) @ ''}'')"
| "stringify_elements [] = []"
| "stringify_elements (v # vs) =
     (case JSON_stringify v of None \<Rightarrow> ''null'' | Some t \<Rightarrow> t) # stringify_elements vs"
| "stringify_members [] = []"
| "stringify_members ((k, v) # kvs) =
     (case JSON_stringify v of
        None \<Rightarrow> stringify_members kvs
      | Some t \<Rightarrow> (QuoteJSONString k @ '':'' @ t) # stringify_members kvs)"

definition JSON_stringify_object :: "(string \<times> jsval) list \<Rightarrow> string" where
  "JSON_stringify_object kvs = ''{'' @ join '','' (stringify_members kvs) @ ''}''"

text \<open>ToString of a value, as \<open>new Date(v)\<close> applies it to an array or an object.\<close>

fun ToString :: "jsval \<Rightarrow> string"
  and ToString_elements :: "jsval list \<Rightarrow> string list" where
  "ToString JUndefined = ''undefined''"
| "ToString JNull = ''null''"
| "ToString (JBool b) = (if b then ''true'' else ''false'')"
| "ToString (JNum n) = Number_toString n"
| "ToString (JStr s) = s"
| "ToString (JArr vs) = join '','' (ToString_elements vs)"
| "ToString (JObj kvs) = ''[object Object]''"
| "ToString_elements [] = []"
| "ToString_elements (v # vs) =
     (case v of JUndefined \<Rightarrow> [] | JNull \<Rightarrow> [] | _ \<Rightarrow> ToString v) # ToString_elements vs"

section \<open>The platform\<close>

text \<open>
  What the program takes from Node.js and is no code of its own:
  \<open>Date_parse\<close> is the string parser behind \<open>new Date(s)\<close>, giving the time value in
  milliseconds or \<open>None\<close> for an invalid date; \<open>sha256_hex\<close> is
  \<open>createHash('sha256').update(s).digest('hex')\<close>; \<open>LocalTZA t isUTC\<close> is the offset of
  the server's time zone in milliseconds, as in the language specification; the last two
  are \<open>toLocaleDateString('en-US', { weekday: 'long' })\<close> and
  \<open>toLocaleTimeString('en-US', { hour: 'numeric', minute: '2-digit' })\<close> of a valid
  date. Every result below holds for whatever functions they are.
\<close>

record runtime =
  Date_parse :: "string \<Rightarrow> int option"
  sha256_hex :: "string \<Rightarrow> string"
  LocalTZA :: "int \<Rightarrow> bool \<Rightarrow> int"
  weekday_long :: "int \<Rightarrow> string"
  time_short :: "int \<Rightarrow> string"

definition maxTime :: int where
  "maxTime = 8640000000000000"

text \<open>\<open>new Date(v).getTime()\<close>, with \<open>None\<close> for NaN.\<close>

fun new_Date :: "runtime \<Rightarrow> jsval \<Rightarrow> int option" where
  "new_Date rt JUndefined = None"
| "new_Date rt JNull = Some 0"
| "new_Date rt (JBool b) = Some (if b then 1 else 0)"
| "new_Date rt (JNum n) = (if \<bar>n\<bar> \<le> maxTime then Some n else None)"
| "new_Date rt (JStr s) = Date_parse rt s"
| "new_Date rt (JArr vs) = Date_parse rt (ToString (JArr vs))"
| "new_Date rt (JObj kvs) = Date_parse rt (ToString (JObj kvs))"

subsection \<open>\<open>Date.prototype.toISOString\<close>\<close>

definition msPerDay :: int where
  "msPerDay = 86400000"

text \<open>Year, month and day of month of a day number counted from 1970-01-01.\<close>

definition civil_from_days :: "int \<Rightarrow> int \<times> int \<times> int" where
  "civil_from_days z0 =
     (let z = z0 + 719468;
          era = z div 146097;
          doe = z mod 146097;
          yoe = (doe - doe div 1460 + doe div 36524 - doe div 146096) div 365;
          doy = doe - (365 * yoe + yoe div 4 - yoe div 100);
          mp = (5 * doy + 2) div 153;
          d = doy - (153 * mp + 2) div 5 + 1;
          m = (if mp < 10 then mp + 3 else mp - 9);
          y = yoe + era * 400 + (if m \<le> 2 then 1 else 0)
      in (y, m, d))"

definition year_text :: "int \<Rightarrow> string" where
  "year_text y =
     (if 0 \<le> y \<and> y \<le> 9999 then zero_pad 4 (nat y)
      else (if y < 0 then ''-'' else ''+'') @ zero_pad 6 (nat \<bar>y\<bar>))"

definition toISOString :: "int \<Rightarrow> string" where
  "toISOString t =
     (case civil_from_days (t div msPerDay) of (y, m, d) \<Rightarrow>
        (let tod = t mod msPerDay in
         year_text y @ ''-'' @ zero_pad 2 (nat m) @ ''-'' @ zero_pad 2 (nat d) @ ''T''
         @ zero_pad 2 (nat (tod div 3600000)) @ '':''
         @ zero_pad 2 (nat (tod div 60000 mod 60)) @ '':''
         @ zero_pad 2 (nat (tod div 1000 mod 60)) @ ''.''
         @ zero_pad 3 (nat (tod mod 1000)) @ ''Z''))"

subsection \<open>Local time: the getters and setters of \<open>Date\<close>\<close>

text \<open>
  A \<open>Date\<close> object is its time value, \<open>None\<close> when it is invalid. The getters of an
  invalid date give NaN, its setters leave it invalid, and its \<open>toISOString\<close> throws.
\<close>

definition days_from_civil :: "int \<Rightarrow> int \<Rightarrow> int \<Rightarrow> int" where
  "days_from_civil y0 m d =
     (let y = (if m \<le> 2 then y0 - 1 else y0);
          era = y div 400;
          yoe = y mod 400;
          doy = (153 * (if m > 2 then m - 3 else m + 9) + 2) div 5 + d - 1;
          doe = yoe * 365 + yoe div 4 - yoe div 100 + doy
      in era * 146097 + doe - 719468)"

definition TimeClip :: "int \<Rightarrow> int option" where
  "TimeClip t = (if \<bar>t\<bar> \<le> maxTime then Some t else None)"

definition LocalTime :: "runtime \<Rightarrow> int \<Rightarrow> int" where
  "LocalTime rt t = t + LocalTZA rt t True"

definition UTC :: "runtime \<Rightarrow> int \<Rightarrow> int" where
  "UTC rt t = t - LocalTZA rt t False"

definition getDay :: "runtime \<Rightarrow> int option \<Rightarrow> int option" where
  "getDay rt date = map_option (\<lambda>t. (LocalTime rt t div msPerDay + 4) mod 7) date"

definition getHours :: "runtime \<Rightarrow> int option \<Rightarrow> int option" where
  "getHours rt date = map_option (\<lambda>t. LocalTime rt t mod msPerDay div 3600000) date"

definition getDate :: "runtime \<Rightarrow> int option \<Rightarrow> int option" where
  "getDate rt date =
     map_option (\<lambda>t. case civil_from_days (LocalTime rt t div msPerDay) of (y, m, d) \<Rightarrow> d) date"

text \<open>\<open>date.setHours(hours, minutes, 0, 0)\<close>\<close>

definition setHours :: "runtime \<Rightarrow> int option \<Rightarrow> int \<Rightarrow> int \<Rightarrow> int option" where
  "setHours rt date hours minutes =
     (case date of
        None \<Rightarrow> None
      | Some t \<Rightarrow>
          TimeClip (UTC rt (LocalTime rt t div msPerDay * msPerDay
                            + (hours * 3600000 + minutes * 60000))))"

text \<open>\<open>date.setDate(dt)\<close>; a NaN argument makes the date invalid.\<close>

definition setDate :: "runtime \<Rightarrow> int option \<Rightarrow> int option \<Rightarrow> int option" where
  "setDate rt date dt =
     (case (date, dt) of
        (Some t, Some n) \<Rightarrow>
          (case civil_from_days (LocalTime rt t div msPerDay) of (y, m, d) \<Rightarrow>
             TimeClip (UTC rt ((days_from_civil y m 1 + n - 1) * msPerDay
                               + LocalTime rt t mod msPerDay)))
      | _ \<Rightarrow> None)"

definition Date_toISOString :: "int option \<Rightarrow> exn + string" where
  "Date_toISOString date =
     (case date of None \<Rightarrow> Inl (Error ''Invalid time value'') | Some t \<Rightarrow> Inr (toISOString t))"

section \<open>Types of the API (types/index.ts)\<close>

datatype ErrorCode =
    SLOT_TAKEN
  | INVALID_SLOT
  | INVALID_PATIENT_ID
  | MISSING_IDEMPOTENCY_KEY
  | IDEMPOTENCY_KEY_MISMATCH
  | SLOT_IN_PAST
  | INTERNAL_ERROR
  | LOCK_TIMEOUT

record BookingRequest =
  patient_id :: jsval
  slot_datetime :: jsval

record BookingSuccessData =
  appointment_id :: string
  data_patient_id :: jsval
  data_slot_datetime :: string
  data_status :: string
  data_message :: string

record ApiError =
  code :: ErrorCode
  message :: string
  details :: "(string \<times> jsval) list option"

record ApiResponse =
  success :: bool
  data :: "BookingSuccessData option"
  error :: "ApiError option"

datatype AppointmentStatus = booked | cancelled

text \<open>
  Rows of the two tables. The columns \<open>created_at\<close> and \<open>updated_at\<close>, which the store
  fills from its own clock and nothing reads, are left out. \<open>response_body\<close> holds the
  response itself: the program writes \<open>JSON.stringify\<close> of it and reads it back with
  \<open>JSON.parse\<close>, which on these objects of strings and booleans gives the same object,
  so the parse cannot throw and its result is never falsy.
\<close>

record Appointment =
  appt_id :: string
  appt_patient_id :: jsval
  appt_slot_datetime :: string
  appt_status :: AppointmentStatus

record IdempotencyRecord =
  idempotency_key :: string
  request_hash :: string
  response_status :: nat
  response_body :: ApiResponse

section \<open>The store (db/sqlite.ts)\<close>

record db =
  appointments :: "Appointment list"
  idempotency_keys :: "IdempotencyRecord list"

definition empty_db :: db where
  "empty_db = \<lparr>appointments = [], idempotency_keys = []\<rparr>"

text \<open>\<open>SELECT * FROM idempotency_keys WHERE idempotency_key = ?\<close>\<close>

definition getIdempotencyKey :: "db \<Rightarrow> string \<Rightarrow> IdempotencyRecord option" where
  "getIdempotencyKey d k = find (\<lambda>r. idempotency_key r = k) (idempotency_keys d)"

text \<open>
  \<open>INSERT OR IGNORE INTO idempotency_keys ...\<close>: the primary key on \<open>idempotency_key\<close>
  makes a row for a key that is already there a conflict, and the conflict is ignored.
\<close>

definition insertIdempotencyKey :: "db \<Rightarrow> string \<Rightarrow> string \<Rightarrow> nat \<Rightarrow> ApiResponse \<Rightarrow> db" where
  "insertIdempotencyKey d k h st body =
     (if \<exists>r \<in> set (idempotency_keys d). idempotency_key r = k then d
      else d\<lparr>idempotency_keys := idempotency_keys d @
             [\<lparr>idempotency_key = k, request_hash = h, response_status = st, response_body = body\<rparr>]\<rparr>)"

text \<open>\<open>SELECT id FROM appointments WHERE slot_datetime = ? AND status = 'booked'\<close>\<close>

definition getBookedSlot :: "db \<Rightarrow> string \<Rightarrow> string option" where
  "getBookedSlot d slot =
     map_option appt_id
       (find (\<lambda>a. appt_slot_datetime a = slot \<and> appt_status a = booked) (appointments d))"

text \<open>
  The value bound to the \<open>patient_id\<close> parameter by \<open>stmt.run(id, patient_id, slot)\<close>. Both
  callers of the service pass a validated string, which is stored as it is. For the other
  values: a number is bound too (the column keeps it, and its text form there is not
  modelled), \<open>null\<close> and \<open>undefined\<close> are bound as NULL and violate NOT NULL, and the
  driver refuses a boolean or an object. An array is spread into positional parameters:
  one element is bound in the place of \<open>patient_id\<close>, as a value of its own kind; none or
  several make the number of values differ from the three parameters of the statement,
  unless one of the values that gets a position is refused first. Every refusal is an
  exception inside the transaction.
\<close>

fun bindable :: "jsval \<Rightarrow> bool" where
  "bindable (JStr s) = True"
| "bindable (JNum n) = True"
| "bindable JNull = True"
| "bindable JUndefined = True"
| "bindable v = False"

fun bind_scalar :: "jsval \<Rightarrow> exn + jsval" where
  "bind_scalar (JStr s) = Inr (JStr s)"
| "bind_scalar (JNum n) = Inr (JNum n)"
| "bind_scalar JNull = Inl (Error ''NOT NULL constraint failed: appointments.patient_id'')"
| "bind_scalar JUndefined = Inl (Error ''NOT NULL constraint failed: appointments.patient_id'')"
| "bind_scalar v = Inl (Error ''SQLite3 can only bind numbers, strings, bigints, buffers, and null'')"

fun bind_value :: "jsval \<Rightarrow> exn + jsval" where
  "bind_value (JArr []) = Inl (Error ''Too few parameter values were provided'')"
| "bind_value (JArr [v]) = bind_scalar v"
| "bind_value (JArr (v # w # vs)) =
     (if list_all bindable (take 3 (v # w # vs))
      then Inl (Error ''Too many parameter values were provided'')
      else Inl (Error ''SQLite3 can only bind numbers, strings, bigints, buffers, and null''))"
| "bind_value v = bind_scalar v"

text \<open>
  \<open>INSERT INTO appointments (id, patient_id, slot_datetime, status) VALUES (?, ?, ?, 'booked')\<close>
  under the primary key on \<open>id\<close> and the partial unique index \<open>unique_booked_slot\<close> on
  \<open>slot_datetime WHERE status = 'booked'\<close>.
\<close>

definition insertAppointment :: "db \<Rightarrow> string \<Rightarrow> jsval \<Rightarrow> string \<Rightarrow> exn + db" where
  "insertAppointment d i p slot =
     (case bind_value p of
        Inl e \<Rightarrow> Inl e
      | Inr pid \<Rightarrow>
          if \<exists>a \<in> set (appointments d). appt_id a = i
          then Inl (Error ''UNIQUE constraint failed: appointments.id'')
          else if \<exists>a \<in> set (appointments d). appt_slot_datetime a = slot \<and> appt_status a = booked
          then Inl (Error ''UNIQUE constraint failed: appointments.slot_datetime'')
          else Inr (d\<lparr>appointments := appointments d @
                 [\<lparr>appt_id = i, appt_patient_id = pid, appt_slot_datetime = slot,
                   appt_status = booked\<rparr>]\<rparr>))"

text \<open>\<open>UPDATE appointments SET status = 'cancelled', ... WHERE id = ?\<close>\<close>

definition cancelAppointment :: "db \<Rightarrow> string \<Rightarrow> db" where
  "cancelAppointment d i =
     d\<lparr>appointments :=
         map (\<lambda>a. if appt_id a = i then a\<lparr>appt_status := cancelled\<rparr> else a) (appointments d)\<rparr>"

text \<open>
  The two shapes \<open>bookAppointmentTransaction\<close> returns:
  \<open>{ success: false, error_code }\<close> and \<open>{ success: true, appointment_id }\<close>.
\<close>

datatype TransactionResult =
    TxnFailure (error_code: string)
  | TxnSuccess (txn_appointment_id: string)

text \<open>
  \<open>bookAppointmentTransaction\<close>, one \<open>db.transaction\<close>: either the whole function runs
  and commits, or the store throws and the transaction is rolled back, leaving the
  tables as they were. \<open>fault\<close> is an error the store itself reports while the
  transaction runs (busy, I/O, a constraint seen only at commit); \<open>None\<close> when it
  reports none.
\<close>

definition bookAppointmentTransaction ::
  "db \<Rightarrow> string option \<Rightarrow> string \<Rightarrow> jsval \<Rightarrow> string \<Rightarrow> exn + TransactionResult \<times> db" where
  "bookAppointmentTransaction d fault i patientId slotDatetime =
     (case fault of
        Some m \<Rightarrow> Inl (Error m)
      | None \<Rightarrow>
          (case getBookedSlot d slotDatetime of
             Some existing \<Rightarrow> Inr (TxnFailure ''SLOT_TAKEN'', d)
           | None \<Rightarrow>
               (case insertAppointment d i patientId slotDatetime of
                  Inl e \<Rightarrow> Inl e
                | Inr d' \<Rightarrow> Inr (TxnSuccess i, d'))))"

text \<open>The prepared statements of the idempotency table, as a call that may throw.\<close>

definition getIdempotencyKey_get ::
  "db \<Rightarrow> string option \<Rightarrow> string \<Rightarrow> exn + IdempotencyRecord option" where
  "getIdempotencyKey_get d fault k =
     (case fault of Some m \<Rightarrow> Inl (Error m) | None \<Rightarrow> Inr (getIdempotencyKey d k))"

definition insertIdempotencyKey_run ::
  "db \<Rightarrow> string option \<Rightarrow> string \<Rightarrow> string \<Rightarrow> nat \<Rightarrow> ApiResponse \<Rightarrow> exn + db" where
  "insertIdempotencyKey_run d fault k h st body =
     (case fault of Some m \<Rightarrow> Inl (Error m) | None \<Rightarrow> Inr (insertIdempotencyKey d k h st body))"

section \<open>The booking service (services/booking.service.ts)\<close>

text \<open>The local \<open>normalized\<close> of \<open>hashRequest\<close>: the text that is digested.\<close>

definition hashRequest_normalized :: "BookingRequest \<Rightarrow> string" where
  "hashRequest_normalized request =
     JSON_stringify_object
       [(''patient_id'', patient_id request), (''slot_datetime'', slot_datetime request)]"

definition hashRequest :: "runtime \<Rightarrow> BookingRequest \<Rightarrow> string" where
  "hashRequest rt request = sha256_hex rt (hashRequest_normalized request)"

text \<open>
  The three objects \<open>checkIdempotencyKey\<close> returns: \<open>{ found: false }\<close>,
  \<open>{ found: true, mismatch: true }\<close> and \<open>{ found: true, response, status }\<close>.
\<close>

datatype IdempotencyCheck =
    NotFound
  | Mismatch
  | Cached (cached_status: nat) (cached_response: ApiResponse)

definition checkIdempotencyKey ::
  "runtime \<Rightarrow> db \<Rightarrow> string option \<Rightarrow> string \<Rightarrow> BookingRequest \<Rightarrow> exn + IdempotencyCheck" where
  "checkIdempotencyKey rt d fault idempotencyKey request =
     (let requestHash = hashRequest rt request in
      case getIdempotencyKey_get d fault idempotencyKey of
        Inl e \<Rightarrow> Inl e
      | Inr (Some row) \<Rightarrow>
          if request_hash row \<noteq> requestHash then Inr Mismatch
          else Inr (Cached (response_status row) (response_body row))
      | Inr None \<Rightarrow> Inr NotFound)"

text \<open>The \<open>catch\<close> of \<open>storeIdempotencyKey\<close> logs the error and returns.\<close>

definition storeIdempotencyKey ::
  "runtime \<Rightarrow> db \<Rightarrow> string option \<Rightarrow> string \<Rightarrow> BookingRequest \<Rightarrow> nat \<Rightarrow> ApiResponse \<Rightarrow> exn + db" where
  "storeIdempotencyKey rt d fault idempotencyKey request responseStatus responseBody =
     (let requestHash = hashRequest rt request in
      case insertIdempotencyKey_run d fault idempotencyKey requestHash responseStatus responseBody of
        Inl e \<Rightarrow> Inr d
      | Inr d' \<Rightarrow> Inr d')"

definition failure :: "ErrorCode \<Rightarrow> string \<Rightarrow> (string \<times> jsval) list option \<Rightarrow> ApiResponse" where
  "failure c m ds =
     \<lparr>success = False, data = None, error = Some \<lparr>code = c, message = m, details = ds\<rparr>\<rparr>"

text \<open>\<open>now\<close> is the value of \<open>new Date()\<close> read by the comparison.\<close>

definition validateRequest :: "runtime \<Rightarrow> int \<Rightarrow> BookingRequest \<Rightarrow> ApiResponse option" where
  "validateRequest rt now request =
     (if \<not> truthy (patient_id request) \<or> \<not> typeof_string (patient_id request)
         \<or> (case patient_id request of JStr s \<Rightarrow> trim s = [] | _ \<Rightarrow> False)
      then Some (failure INVALID_PATIENT_ID
                  ''patient_id is required and must be a non-empty string'' None)
      else if \<not> truthy (slot_datetime request) \<or> \<not> typeof_string (slot_datetime request)
      then Some (failure INVALID_SLOT
                  ''slot_datetime is required and must be a valid ISO 8601 datetime string'' None)
      else
        (case new_Date rt (slot_datetime request) of
           None \<Rightarrow>
             Some (failure INVALID_SLOT ''slot_datetime must be a valid ISO 8601 datetime string''
                    (Some [(''received'', slot_datetime request)]))
         | Some slotDate \<Rightarrow>
             if slotDate < now
             then Some (failure SLOT_IN_PAST ''Cannot book appointments in the past''
                         (Some [(''slot_datetime'', slot_datetime request)]))
             else None))"

record BookingResult =
  status :: nat
  response :: ApiResponse

definition slot_taken_result :: "string \<Rightarrow> BookingResult" where
  "slot_taken_result slotDatetime =
     \<lparr>status = 409,
      response = failure SLOT_TAKEN ''This time slot is already booked''
                   (Some [(''slot_datetime'', JStr slotDatetime)])\<rparr>"

text \<open>
  \<open>bookAppointment\<close>. \<open>toISOString\<close> of an invalid date throws a RangeError, and that
  line stands before the \<open>try\<close>; \<open>appointmentId\<close> is the value of \<open>randomUUID()\<close>.
\<close>

definition bookAppointment ::
  "runtime \<Rightarrow> db \<Rightarrow> string option \<Rightarrow> string \<Rightarrow> BookingRequest \<Rightarrow> exn + BookingResult \<times> db" where
  "bookAppointment rt d fault appointmentId request =
     (case new_Date rt (slot_datetime request) of
        None \<Rightarrow> Inl (Error ''Invalid time value'')
      | Some t \<Rightarrow>
          (let slotDatetime = toISOString t in
           case bookAppointmentTransaction d fault appointmentId (patient_id request) slotDatetime of
             Inr (TxnFailure c, d') \<Rightarrow>
               if c = ''SLOT_TAKEN'' then Inr (slot_taken_result slotDatetime, d')
               else Inr (\<lparr>status = 500,
                          response = failure INTERNAL_ERROR ''Failed to book appointment'' None\<rparr>, d')
           | Inr (TxnSuccess i, d') \<Rightarrow>
               Inr (\<lparr>status = 201,
                     response =
                       \<lparr>success = True,
                        data = Some \<lparr>appointment_id = i, data_patient_id = patient_id request,
                                     data_slot_datetime = slotDatetime, data_status = ''booked'',
                                     data_message = ''Appointment successfully booked''\<rparr>,
                        error = None\<rparr>\<rparr>, d')
           | Inl e \<Rightarrow>
               if str_includes (message_of e) ''UNIQUE constraint failed''
               then Inr (slot_taken_result slotDatetime, d)
               else Inr (\<lparr>status = 500,
                          response = failure INTERNAL_ERROR
                            ''An internal error occurred while processing your request'' None\<rparr>, d)))"

section \<open>The route POST /book (routes/booking.route.ts)\<close>

text \<open>
  What one call reads from outside the store: the clock, the random identifier, and
  the errors the store reports to each of the three statements the handler runs.
\<close>

record call_env =
  now :: int
  randomUUID :: string
  get_fault :: "string option"
  txn_fault :: "string option"
  insert_fault :: "string option"

record HttpResponse =
  http_status :: nat
  http_body :: ApiResponse

definition unexpected_error :: HttpResponse where
  "unexpected_error =
     \<lparr>http_status = 500, http_body = failure INTERNAL_ERROR ''An unexpected error occurred'' None\<rparr>"

definition key_mismatch :: HttpResponse where
  "key_mismatch =
     \<lparr>http_status = 422,
      http_body = failure IDEMPOTENCY_KEY_MISMATCH
        ''This Idempotency-Key was already used with different request parameters''
        (Some [(''hint'',
           JStr ''Generate a new Idempotency-Key for requests with different parameters'')])\<rparr>"

text \<open>
  The handler after the middleware has accepted the key. Every \<open>Inl\<close> below is an
  exception reaching the handler's \<open>catch\<close>.
\<close>

definition book ::
  "runtime \<Rightarrow> call_env \<Rightarrow> db \<Rightarrow> string \<Rightarrow> BookingRequest \<Rightarrow> HttpResponse \<times> db" where
  "book rt env d idempotencyKey bookingRequest =
     (case checkIdempotencyKey rt d (get_fault env) idempotencyKey bookingRequest of
        Inl e \<Rightarrow> (unexpected_error, d)
      | Inr Mismatch \<Rightarrow> (key_mismatch, d)
      | Inr (Cached st resp) \<Rightarrow> (\<lparr>http_status = st, http_body = resp\<rparr>, d)
      | Inr NotFound \<Rightarrow>
          (case validateRequest rt (now env) bookingRequest of
             Some validationError \<Rightarrow>
               (case storeIdempotencyKey rt d (insert_fault env) idempotencyKey bookingRequest
                       400 validationError of
                  Inl e \<Rightarrow> (unexpected_error, d)
                | Inr d' \<Rightarrow> (\<lparr>http_status = 400, http_body = validationError\<rparr>, d'))
           | None \<Rightarrow>
               (case bookAppointment rt d (txn_fault env) (randomUUID env) bookingRequest of
                  Inl e \<Rightarrow> (unexpected_error, d)
                | Inr (result, d') \<Rightarrow>
                    if map_option code (error (response result)) \<noteq> Some LOCK_TIMEOUT
                    then
                      (case storeIdempotencyKey rt d' (insert_fault env) idempotencyKey
                              bookingRequest (status result) (response result) of
                         Inl e \<Rightarrow> (unexpected_error, d')
                       | Inr d'' \<Rightarrow>
                           (\<lparr>http_status = status result, http_body = response result\<rparr>, d''))
                    else (\<lparr>http_status = status result, http_body = response result\<rparr>, d'))))"

section \<open>The voice webhook (routes/vapi.route.ts)\<close>

subsection \<open>String helpers\<close>

definition digit_val :: "char \<Rightarrow> nat option" where
  "digit_val c =
     (let n = (of_char c :: nat) in if 48 \<le> n \<and> n \<le> 57 then Some (n - 48) else None)"

fun digits_value :: "string \<Rightarrow> nat \<Rightarrow> nat option" where
  "digits_value [] acc = Some acc"
| "digits_value (c # cs) acc =
     (case digit_val c of None \<Rightarrow> None | Some v \<Rightarrow> digits_value cs (10 * acc + v))"

definition all_digits :: "string \<Rightarrow> nat option" where
  "all_digits s = (if s = [] then None else digits_value s 0)"

definition isDigit :: "char \<Rightarrow> bool" where
  "isDigit c = (digit_val c \<noteq> None)"

text \<open>\<open>parseInt(s, 10)\<close> of a text the pattern has matched against digits only.\<close>

definition parseInt :: "string \<Rightarrow> int" where
  "parseInt s = (case all_digits s of Some n \<Rightarrow> int n | None \<Rightarrow> 0)"

definition lower_unit :: "char \<Rightarrow> char" where
  "lower_unit c =
     (let n = (of_char c :: nat) in
      if (65 \<le> n \<and> n \<le> 90) \<or> (192 \<le> n \<and> n \<le> 222 \<and> n \<noteq> 215) then char_of (n + 32) else c)"

definition toLowerCase :: "string \<Rightarrow> string" where
  "toLowerCase s = map lower_unit s"

text \<open>\<open>s.replace(/\s+/g, '-')\<close>; the flag says that a run of white space is being read.\<close>

fun dash_runs :: "bool \<Rightarrow> string \<Rightarrow> string" where
  "dash_runs in_run [] = []"
| "dash_runs in_run (c # cs) =
     (if isWhiteSpace c then (if in_run then dash_runs True cs else CHR ''-'' # dash_runs True cs)
      else c # dash_runs False cs)"

text \<open>\<open>s.replace('.', '')\<close>: the first dot only.\<close>

fun drop_first_dot :: "string \<Rightarrow> string" where
  "drop_first_dot [] = []"
| "drop_first_dot (c # cs) = (if c = CHR ''.'' then cs else c # drop_first_dot cs)"

subsection \<open>Clinic hours\<close>

definition CLINIC_OPEN :: int where
  "CLINIC_OPEN = 9"

definition CLINIC_CLOSE :: int where
  "CLINIC_CLOSE = 18"

text \<open>The two objects the checks return: \<open>{ valid: true }\<close> and \<open>{ valid: false, message }\<close>.\<close>

datatype Check = Valid | Invalid (check_message: string)

text \<open>A comparison with NaN is false, so an invalid date passes both checks.\<close>

definition isWithinClinicHours :: "int option \<Rightarrow> Check" where
  "isWithinClinicHours hours =
     (case hours of
        None \<Rightarrow> Valid
      | Some h \<Rightarrow>
          if h < CLINIC_OPEN then Invalid ''We open at 9 AM. How about 9 or 10 in the morning?''
          else if h \<ge> CLINIC_CLOSE then Invalid ''Oh we close at 6 PM. How about earlier, like 4 or 5?''
          else Valid)"

definition isWeekday :: "runtime \<Rightarrow> int option \<Rightarrow> Check" where
  "isWeekday rt date =
     (let day = getDay rt date in
      if day = Some 0 \<or> day = Some 6
      then Invalid (''Ahh we'' @ [CHR 0x27] @ ''re closed on weekends. How about Monday?'')
      else Valid)"

subsection \<open>Reading the date and the time\<close>

text \<open>\<open>today\<close> is the value of \<open>new Date()\<close> read by \<open>getNextWeekday\<close>.\<close>

definition getNextWeekday :: "runtime \<Rightarrow> int \<Rightarrow> int \<Rightarrow> int option" where
  "getNextWeekday rt today targetDay =
     (case (getDay rt (Some today), getDate rt (Some today)) of
        (Some currentDay, Some dayOfMonth) \<Rightarrow>
          (let daysUntil = targetDay - currentDay;
               daysUntil = (if daysUntil \<le> 0 then daysUntil + 7 else daysUntil)
           in setDate rt (Some today) (Some (dayOfMonth + daysUntil)))
      | _ \<Rightarrow> None)"

text \<open>
  The alternatives \<open>(am|pm|a\.m\.|p\.m\.)\<close> of the time pattern under the flag \<open>i\<close>, tried
  in this order at the head of the text.
\<close>

definition match_meridiem :: "string \<Rightarrow> string option" where
  "match_meridiem r =
     (if toLowerCase (take 2 r) = ''am'' then Some (take 2 r)
      else if toLowerCase (take 2 r) = ''pm'' then Some (take 2 r)
      else if toLowerCase (take 4 r) = ''a.m.'' then Some (take 4 r)
      else if toLowerCase (take 4 r) = ''p.m.'' then Some (take 4 r)
      else None)"

text \<open>
  \<open>time.match(/(\d{1,2})(?::(\d{2}))?\s*(am|pm|a\.m\.|p\.m\.)?/i)\<close>: the three groups of
  the leftmost match, \<open>None\<close> when the text has no digit. Everything after the first
  group is optional and greedy, so the match starts at the first digit and never
  backtracks.
\<close>

definition match_time :: "string \<Rightarrow> (string \<times> string option \<times> string option) option" where
  "match_time time =
     (let s = dropWhile (\<lambda>c. \<not> isDigit c) time in
      if s = [] then None
      else
        (let g1 = (if length s \<ge> 2 \<and> isDigit (s ! 1) then take 2 s else take 1 s);
             r1 = drop (length g1) s;
             g2 = (if length r1 \<ge> 3 \<and> r1 ! 0 = CHR '':'' \<and> isDigit (r1 ! 1) \<and> isDigit (r1 ! 2)
                   then Some (take 2 (drop 1 r1)) else None);
             r2 = (case g2 of Some m \<Rightarrow> drop 3 r1 | None \<Rightarrow> r1);
             g3 = match_meridiem (dropWhile isWhiteSpace r2)
         in Some (g1, g2, g3)))"

text \<open>
  \<open>parseAppointmentDateTime\<close>, with \<open>None\<close> for \<open>null\<close>. \<open>today\<close> is its own reading of
  the clock and \<open>today2\<close> the one \<open>getNextWeekday\<close> takes. A date or a time that is no
  string has no \<open>toLowerCase\<close> or \<open>match\<close>; the TypeError is caught like the RangeError
  of \<open>toISOString\<close>, and the function returns \<open>null\<close>.
\<close>

definition parseAppointmentDateTime ::
  "runtime \<Rightarrow> int \<Rightarrow> int \<Rightarrow> jsval \<Rightarrow> jsval \<Rightarrow> string option" where
  "parseAppointmentDateTime rt today today2 date time =
     (case date of
        JStr dateText \<Rightarrow>
          (let lowerDate = trim (toLowerCase dateText);
               parsedDate =
                 (if lowerDate = ''today'' then Some today
                  else if lowerDate = ''tomorrow''
                  then setDate rt (Some today) (map_option (\<lambda>d. d + 1) (getDate rt (Some today)))
                  else if str_includes lowerDate ''monday'' then getNextWeekday rt today2 1
                  else if str_includes lowerDate ''tuesday'' then getNextWeekday rt today2 2
                  else if str_includes lowerDate ''wednesday'' then getNextWeekday rt today2 3
                  else if str_includes lowerDate ''thursday'' then getNextWeekday rt today2 4
                  else if str_includes lowerDate ''friday'' then getNextWeekday rt today2 5
                  else Date_parse rt dateText)
           in if parsedDate = None then None
              else
                (case time of
                   JStr timeText \<Rightarrow>
                     (case match_time timeText of
                        None \<Rightarrow> None
                      | Some (g1, g2, g3) \<Rightarrow>
                          (let hours = parseInt g1;
                               minutes = parseInt (case g2 of Some m \<Rightarrow> m | None \<Rightarrow> ''0'');
                               meridiem = map_option (\<lambda>m. drop_first_dot (toLowerCase m)) g3;
                               hours =
                                 (if (case meridiem of Some m \<Rightarrow> startsWith m ''p'' | None \<Rightarrow> False)
                                     \<and> hours \<noteq> 12 then hours + 12
                                  else if (case meridiem of Some m \<Rightarrow> startsWith m ''a'' | None \<Rightarrow> False)
                                     \<and> hours = 12 then 0
                                  else hours)
                           in case Date_toISOString (setHours rt parsedDate hours minutes) of
                                Inl e \<Rightarrow> None
                              | Inr isoText \<Rightarrow> Some isoText))
                 | _ \<Rightarrow> None))
      | _ \<Rightarrow> None)"

subsection \<open>Alternative slots\<close>

definition hour_text :: "int \<Rightarrow> string" where
  "hour_text hour =
     (if hour < 12 then Number_toString hour @ '' AM''
      else if hour = 12 then ''12 PM''
      else Number_toString (hour - 12) @ '' PM'')"

text \<open>
  The loop of \<open>findAlternativeSlots\<close> over the hours still to check. \<open>fault\<close> is an error
  the store reports to the query.
\<close>

fun alternatives_loop ::
  "runtime \<Rightarrow> db \<Rightarrow> string option \<Rightarrow> int option \<Rightarrow> int list \<Rightarrow> string list \<Rightarrow> exn + string list" where
  "alternatives_loop rt d fault originalDate [] alternatives = Inr alternatives"
| "alternatives_loop rt d fault originalDate (hour # hours) alternatives =
     (if length alternatives \<ge> 2 then Inr alternatives
      else
        (case Date_toISOString (setHours rt originalDate hour 0) of
           Inl e \<Rightarrow> Inl e
         | Inr checkDatetime \<Rightarrow>
             (case fault of
                Some m \<Rightarrow> Inl (Error m)
              | None \<Rightarrow>
                  (case getBookedSlot d checkDatetime of
                     None \<Rightarrow>
                       alternatives_loop rt d fault originalDate hours
                         (alternatives @ [hour_text hour])
                   | Some existing \<Rightarrow>
                       alternatives_loop rt d fault originalDate hours alternatives))))"

definition findAlternativeSlots ::
  "runtime \<Rightarrow> db \<Rightarrow> string option \<Rightarrow> int option \<Rightarrow> exn + string" where
  "findAlternativeSlots rt d fault originalDate =
     (case alternatives_loop rt d fault originalDate [9, 10, 11, 14, 15, 16, 17] [] of
        Inl e \<Rightarrow> Inl e
      | Inr alternatives \<Rightarrow>
          Inr (if length alternatives > 0 then join '' or '' alternatives else ''10 AM tomorrow''))"

subsection \<open>\<open>handleBookAppointment\<close>\<close>

fun ErrorCode_text :: "ErrorCode \<Rightarrow> string" where
  "ErrorCode_text SLOT_TAKEN = ''SLOT_TAKEN''"
| "ErrorCode_text INVALID_SLOT = ''INVALID_SLOT''"
| "ErrorCode_text INVALID_PATIENT_ID = ''INVALID_PATIENT_ID''"
| "ErrorCode_text MISSING_IDEMPOTENCY_KEY = ''MISSING_IDEMPOTENCY_KEY''"
| "ErrorCode_text IDEMPOTENCY_KEY_MISMATCH = ''IDEMPOTENCY_KEY_MISMATCH''"
| "ErrorCode_text SLOT_IN_PAST = ''SLOT_IN_PAST''"
| "ErrorCode_text INTERNAL_ERROR = ''INTERNAL_ERROR''"
| "ErrorCode_text LOCK_TIMEOUT = ''LOCK_TIMEOUT''"

text \<open>A property of the tool call's arguments; a missing one is \<open>undefined\<close>.\<close>

definition arg :: "(string \<times> jsval) list \<Rightarrow> string \<Rightarrow> jsval" where
  "arg args k = (case map_of args k of None \<Rightarrow> JUndefined | Some v \<Rightarrow> v)"

definition reply :: "string \<Rightarrow> jsval" where
  "reply m = JObj [(''success'', JBool False), (''message'', JStr m)]"

text \<open>
  \<open>patientPhone.replace(/\D/g, '') || `patient-${patientName.toLowerCase().replace(/\s+/g, '-')}`\<close>.
  Only a string has \<open>replace\<close> and \<open>toLowerCase\<close>; on another value the call throws a
  TypeError, outside any \<open>try\<close>.
\<close>

definition createPatientId :: "jsval \<Rightarrow> jsval \<Rightarrow> exn + string" where
  "createPatientId patientPhone patientName =
     (case patientPhone of
        JStr phone \<Rightarrow>
          if filter isDigit phone \<noteq> [] then Inr (filter isDigit phone)
          else
            (case patientName of
               JStr name \<Rightarrow> Inr (''patient-'' @ dash_runs False (toLowerCase name))
             | _ \<Rightarrow> Inl (Error ''patientName.toLowerCase is not a function''))
      | _ \<Rightarrow> Inl (Error ''patientPhone.replace is not a function''))"

text \<open>
  What one tool call reads from outside the store: the three readings of the clock,
  the two random identifiers, and the errors the store reports to the transaction, to
  the insertion of the key and to the queries of \<open>findAlternativeSlots\<close>.
\<close>

record voice_env =
  today_parse :: int
  today_weekday :: int
  now_validate :: int
  appointment_uuid :: string
  key_uuid :: string
  booking_fault :: "string option"
  store_fault :: "string option"
  query_fault :: "string option"

definition booked_reply ::
  "runtime \<Rightarrow> string \<Rightarrow> BookingResult \<Rightarrow> jsval \<Rightarrow> jsval \<Rightarrow> jsval \<Rightarrow> jsval \<Rightarrow> jsval \<Rightarrow> jsval" where
  "booked_reply rt slotDatetime result patientName patientPhone appointmentDate appointmentTime
       reasonForVisit =
     (let dateObj = Date_parse rt slotDatetime;
          dayName = (case dateObj of None \<Rightarrow> ''Invalid Date'' | Some t \<Rightarrow> weekday_long rt t);
          timeFormatted = (case dateObj of None \<Rightarrow> ''Invalid Date'' | Some t \<Rightarrow> time_short rt t)
      in JObj
           [(''success'', JBool True),
            (''message'',
               JStr (''Done! You'' @ [CHR 0x27] @ ''re booked for '' @ dayName @ '' at ''
                     @ timeFormatted @ ''. See you then '' @ ToString patientName @ ''!'')),
            (''appointment'',
               JObj [(''id'', (case data (response result) of
                                 None \<Rightarrow> JUndefined
                               | Some dt \<Rightarrow> JStr (appointment_id dt))),
                     (''patient_name'', patientName),
                     (''patient_phone'', patientPhone),
                     (''date'', appointmentDate),
                     (''time'', appointmentTime),
                     (''reason'', if truthy reasonForVisit then reasonForVisit
                                  else JStr ''Checkup'')])])"

definition slot_taken_reply :: "string \<Rightarrow> jsval" where
  "slot_taken_reply alternatives =
     JObj [(''success'', JBool False),
           (''message'', JStr (''Ooh that one'' @ [CHR 0x27] @ ''s taken. How about ''
                              @ alternatives @ ''?'')),
           (''error_code'', JStr ''SLOT_TAKEN'')]"

text \<open>
  The body of \<open>handleBookAppointment\<close> from the construction of \<open>bookingRequest\<close> to its
  end: validation, the booking, the key, and the reply.
\<close>

definition bookAndReply ::
  "runtime \<Rightarrow> voice_env \<Rightarrow> db \<Rightarrow> (string \<times> jsval) list \<Rightarrow> string \<Rightarrow> int option \<Rightarrow> string
     \<Rightarrow> exn + jsval \<times> db" where
  "bookAndReply rt env d args slotDatetime slotDate patientId =
     (let bookingRequest = \<lparr>patient_id = JStr patientId, slot_datetime = JStr slotDatetime\<rparr> in
      case validateRequest rt (now_validate env) bookingRequest of
        Some validationError \<Rightarrow>
          if map_option code (error validationError) = Some SLOT_IN_PAST
          then Inr (reply (''That time'' @ [CHR 0x27]
                      @ ''s already passed. How about tomorrow?''), d)
          else Inr (reply (''Something'' @ [CHR 0x27] @ ''s off. Can you repeat that?''), d)
      | None \<Rightarrow>
          (case bookAppointment rt d (booking_fault env) (appointment_uuid env) bookingRequest of
             Inl e \<Rightarrow> Inl e
           | Inr (result, d') \<Rightarrow>
               if success (response result) then
                 (case storeIdempotencyKey rt d' (store_fault env) (key_uuid env) bookingRequest
                         (status result) (response result) of
                    Inl e \<Rightarrow> Inl e
                  | Inr d'' \<Rightarrow>
                      Inr (booked_reply rt slotDatetime result (arg args ''patient_name'')
                             (arg args ''patient_phone'') (arg args ''appointment_date'')
                             (arg args ''appointment_time'') (arg args ''reason_for_visit''), d''))
               else if map_option code (error (response result)) = Some SLOT_TAKEN then
                 (case findAlternativeSlots rt d' (query_fault env) slotDate of
                    Inl e \<Rightarrow> Inl e
                  | Inr alternatives \<Rightarrow> Inr (slot_taken_reply alternatives, d'))
               else
                 Inr (JObj
                        [(''success'', JBool False),
                         (''message'', JStr ''Hmm something went wrong. Let me try again.''),
                         (''error_code'',
                            (case map_option code (error (response result)) of
                               None \<Rightarrow> JUndefined
                             | Some c \<Rightarrow> JStr (ErrorCode_text c)))],
                      d')))"

text \<open>\<open>handleBookAppointment\<close>: the checks of the arguments, then the body above.\<close>

definition handleBookAppointment ::
  "runtime \<Rightarrow> voice_env \<Rightarrow> db \<Rightarrow> (string \<times> jsval) list \<Rightarrow> exn + jsval \<times> db" where
  "handleBookAppointment rt env d args =
     (let patientName = arg args ''patient_name'';
          patientPhone = arg args ''patient_phone'';
          appointmentDate = arg args ''appointment_date'';
          appointmentTime = arg args ''appointment_time''
      in
      if \<not> truthy patientName then Inr (reply (''What'' @ [CHR 0x27] @ ''s your name?''), d)
      else if \<not> truthy patientPhone
      then Inr (reply (''And what'' @ [CHR 0x27] @ ''s a good number for you?''), d)
      else if \<not> truthy appointmentDate \<or> \<not> truthy appointmentTime
      then Inr (reply ''When would you like to come in?'', d)
      else
        (case parseAppointmentDateTime rt (today_parse env) (today_weekday env)
                appointmentDate appointmentTime of
           None \<Rightarrow> Inr (reply (''Hmm didn'' @ [CHR 0x27] @ ''t catch that. What time?''), d)
         | Some slotDatetime \<Rightarrow>
             if slotDatetime = []
             then Inr (reply (''Hmm didn'' @ [CHR 0x27] @ ''t catch that. What time?''), d)
             else
               (let slotDate = Date_parse rt slotDatetime in
                case isWeekday rt slotDate of
                  Invalid m \<Rightarrow> Inr (reply m, d)
                | Valid \<Rightarrow>
                    (case isWithinClinicHours (getHours rt slotDate) of
                       Invalid m \<Rightarrow> Inr (reply m, d)
                     | Valid \<Rightarrow>
                         (case createPatientId patientPhone patientName of
                            Inl e \<Rightarrow> Inl e
                          | Inr patientId \<Rightarrow>
                              bookAndReply rt env d args slotDatetime slotDate patientId)))))"

section \<open>A concrete runtime for the examples\<close>

text \<open>
  The examples below need a platform to run on. \<open>iso_parse\<close> reads the fragment
  \<open>YYYY-MM-DDTHH:mm:ss\<close>, an optional \<open>.sss\<close>, then \<open>Z\<close> or an offset \<open>+HH:mm\<close> or
  \<open>-HH:mm\<close> of the date time string format every JavaScript engine accepts, and
  \<open>hex_text\<close> stands for the digest: like SHA-256 on the inputs used here, it gives
  different texts different fingerprints. The server's zone is UTC. No theorem about the
  program depends on any of this.
\<close>

definition days_in_month :: "nat \<Rightarrow> nat \<Rightarrow> nat" where
  "days_in_month y m =
     (if m = 2 then (if y mod 4 = 0 \<and> (y mod 100 \<noteq> 0 \<or> y mod 400 = 0) then 29 else 28)
      else if m \<in> {4, 6, 9, 11} then 30 else 31)"

definition iso_zone :: "string \<Rightarrow> int option" where
  "iso_zone z =
     (if z = ''Z'' then Some 0
      else if length z = 6 \<and> z ! 0 \<in> {CHR ''+'', CHR ''-''} \<and> z ! 3 = CHR '':'' then
        (case (all_digits (take 2 (drop 1 z)), all_digits (drop 4 z)) of
           (Some h, Some m) \<Rightarrow>
             if h \<le> 23 \<and> m \<le> 59
             then Some ((if z ! 0 = CHR ''-'' then - 1 else 1) * (int h * 60 + int m) * 60000)
             else None
         | _ \<Rightarrow> None)
      else None)"

definition iso_fraction :: "string \<Rightarrow> (nat \<times> string) option" where
  "iso_fraction r =
     (if take 1 r = ''.'' then
        (case all_digits (take 3 (drop 1 r)) of
           Some ms \<Rightarrow> if length r \<ge> 4 then Some (ms, drop 4 r) else None
         | None \<Rightarrow> None)
      else Some (0, r))"

definition iso_parse :: "string \<Rightarrow> int option" where
  "iso_parse s =
     (if length s < 20 \<or> s ! 4 \<noteq> CHR ''-'' \<or> s ! 7 \<noteq> CHR ''-'' \<or> s ! 10 \<noteq> CHR ''T''
         \<or> s ! 13 \<noteq> CHR '':'' \<or> s ! 16 \<noteq> CHR '':'' then None
      else
        (case (all_digits (take 4 s), all_digits (take 2 (drop 5 s)),
               all_digits (take 2 (drop 8 s)), all_digits (take 2 (drop 11 s)),
               all_digits (take 2 (drop 14 s)), all_digits (take 2 (drop 17 s)),
               iso_fraction (drop 19 s)) of
           (Some y, Some mo, Some dd, Some h, Some mi, Some sec, Some (ms, z)) \<Rightarrow>
             (case iso_zone z of
                Some off \<Rightarrow>
                  if 1 \<le> mo \<and> mo \<le> 12 \<and> 1 \<le> dd \<and> dd \<le> days_in_month y mo
                     \<and> h \<le> 23 \<and> mi \<le> 59 \<and> sec \<le> 59
                  then Some (days_from_civil (int y) (int mo) (int dd) * msPerDay
                             + int h * 3600000 + int mi * 60000 + int sec * 1000 + int ms - off)
                  else None
              | None \<Rightarrow> None)
         | _ \<Rightarrow> None))"

definition hex_text :: "string \<Rightarrow> string" where
  "hex_text s = concat (map (\<lambda>c. [digit (of_char c div 16), digit (of_char c mod 16)]) s)"

definition example_runtime :: runtime where
  "example_runtime =
     \<lparr>Date_parse = iso_parse, sha256_hex = hex_text, LocalTZA = (\<lambda>t isUTC. 0),
      weekday_long = (\<lambda>t. [''Sunday'', ''Monday'', ''Tuesday'', ''Wednesday'', ''Thursday'',
                             ''Friday'', ''Saturday''] ! nat ((t div msPerDay + 4) mod 7)),
      time_short = (\<lambda>t. let h = t mod msPerDay div 3600000 in
                      decimal (nat ((h + 11) mod 12 + 1)) @ '':''
                      @ zero_pad 2 (nat (t div 60000 mod 60))
                      @ (if h < 12 then '' AM'' else '' PM''))\<rparr>"

section \<open>Invariants of the store\<close>

text \<open>The slots that hold a booked row, one entry per row.\<close>

definition booked_slots :: "db \<Rightarrow> string list" where
  "booked_slots d =
     map appt_slot_datetime (filter (\<lambda>a. appt_status a = booked) (appointments d))"

definition unique_booked_slot :: "db \<Rightarrow> bool" where
  "unique_booked_slot d = distinct (booked_slots d)"

text \<open>
  The states of the store: the empty tables, and whatever a statement that writes, a
  call of the service, a request to the route or a tool call of the voice webhook
  makes of a state. Requests interleave
  only between statements, and the transaction is one of them.
\<close>

inductive reachable :: "db \<Rightarrow> bool" where
  initial: "reachable empty_db"
| transaction:
    "reachable d \<Longrightarrow> bookAppointmentTransaction d fault i p slot = Inr (r, d') \<Longrightarrow> reachable d'"
| record_key: "reachable d \<Longrightarrow> reachable (insertIdempotencyKey d k h st body)"
| cancel: "reachable d \<Longrightarrow> reachable (cancelAppointment d i)"
| service:
    "reachable d \<Longrightarrow> bookAppointment rt d fault i request = Inr (res, d') \<Longrightarrow> reachable d'"
| route: "reachable d \<Longrightarrow> book rt env d k request = (resp, d') \<Longrightarrow> reachable d'"
| voice:
    "reachable d \<Longrightarrow> handleBookAppointment rt venv d args = Inr (res, d') \<Longrightarrow> reachable d'"

section \<open>The validator in the words of the specification\<close>

text \<open>
  The specification's cases, in its order: the patient identifier is missing, not a
  string, or empty after trimming; the slot is missing, not a string, or not parseable
  as a point in time; the slot is earlier than the current instant; otherwise valid.
\<close>

definition spec_patient_id_invalid :: "jsval \<Rightarrow> bool" where
  "spec_patient_id_invalid v =
     (case v of JUndefined \<Rightarrow> True | JStr s \<Rightarrow> trim s = [] | _ \<Rightarrow> True)"

definition spec_slot_invalid :: "runtime \<Rightarrow> jsval \<Rightarrow> bool" where
  "spec_slot_invalid rt v =
     (case v of JUndefined \<Rightarrow> True | JStr s \<Rightarrow> Date_parse rt s = None | _ \<Rightarrow> True)"

definition spec_slot_in_past :: "runtime \<Rightarrow> int \<Rightarrow> jsval \<Rightarrow> bool" where
  "spec_slot_in_past rt clock v =
     (case v of
        JStr s \<Rightarrow> (case Date_parse rt s of Some t \<Rightarrow> t < clock | None \<Rightarrow> False)
      | _ \<Rightarrow> False)"

definition spec_validate :: "runtime \<Rightarrow> int \<Rightarrow> BookingRequest \<Rightarrow> ErrorCode option" where
  "spec_validate rt clock request =
     (if spec_patient_id_invalid (patient_id request) then Some INVALID_PATIENT_ID
      else if spec_slot_invalid rt (slot_datetime request) then Some INVALID_SLOT
      else if spec_slot_in_past rt clock (slot_datetime request) then Some SLOT_IN_PAST
      else None)"

section \<open>The shape of quoted text\<close>

text \<open>
  The three shapes \<open>quote_unit\<close> gives a code unit: the unit itself, a backslash with
  one letter, or the escape with four hexadecimal digits.
\<close>

definition plain_unit :: "char \<Rightarrow> bool" where
  "plain_unit c =
     (32 \<le> (of_char c :: nat) \<and> (of_char c :: nat) \<noteq> 34 \<and> (of_char c :: nat) \<noteq> 92)"

definition short_escape :: "char \<Rightarrow> char option" where
  "short_escape c =
     (let n = (of_char c :: nat) in
      if n = 8 then Some (CHR ''b'') else if n = 9 then Some (CHR ''t'')
      else if n = 10 then Some (CHR ''n'') else if n = 12 then Some (CHR ''f'')
      else if n = 13 then Some (CHR ''r'') else if n = 34 then Some (CHR 0x22)
      else if n = 92 then Some (CHR 0x5C) else None)"

section \<open>Reading a reply of the voice webhook\<close>

text \<open>\<open>result.success\<close> of the object a tool call returns.\<close>

definition reply_success :: "jsval \<Rightarrow> bool" where
  "reply_success r =
     (case r of JObj kvs \<Rightarrow> map_of kvs ''success'' = Some (JBool True) | _ \<Rightarrow> False)"

text \<open>The result of a tool call without the idempotency table: the reply and the appointments.\<close>

definition visible :: "exn + jsval \<times> db \<Rightarrow> exn + jsval \<times> Appointment list" where
  "visible out = map_sum id (\<lambda>(r, d'). (r, appointments d')) out"

section \<open>Example states and requests\<close>

definition example_db :: db where
  "example_db =
     \<lparr>appointments =
        [\<lparr>appt_id = ''id-1'', appt_patient_id = JStr ''p1'',
          appt_slot_datetime = ''2030-01-01T10:00:00.000Z'', appt_status = booked\<rparr>],
      idempotency_keys = []\<rparr>"

definition example_request :: BookingRequest where
  "example_request = \<lparr>patient_id = JStr ''p1'', slot_datetime = JStr ''2030-01-01T10:00:00Z''\<rparr>"

text \<open>A call at 2027-01-15T08:00:00Z that meets no error of the store.\<close>

definition example_env :: call_env where
  "example_env =
     \<lparr>now = 1800000000000, randomUUID = ''id-1'', get_fault = None, txn_fault = None,
      insert_fault = None\<rparr>"

text \<open>A later call, at 2033-05-18T03:33:20Z, when the slot of the request has passed.\<close>

definition later_env :: call_env where
  "later_env =
     \<lparr>now = 2000000000000, randomUUID = ''id-2'', get_fault = None, txn_fault = None,
      insert_fault = None\<rparr>"

definition booked_response :: HttpResponse where
  "booked_response =
     \<lparr>http_status = 201,
      http_body =
        \<lparr>success = True,
         data = Some \<lparr>appointment_id = ''id-1'', data_patient_id = JStr ''p1'',
                      data_slot_datetime = ''2030-01-01T10:00:00.000Z'',
                      data_status = ''booked'',
                      data_message = ''Appointment successfully booked''\<rparr>,
         error = None\<rparr>\<rparr>"

definition booked_row :: IdempotencyRecord where
  "booked_row =
     \<lparr>idempotency_key = ''K1'', request_hash = hashRequest example_runtime example_request,
      response_status = 201, response_body = http_body booked_response\<rparr>"

text \<open>The store after the example request has been booked under the key K1.\<close>

definition booked_db :: db where
  "booked_db = \<lparr>appointments = appointments example_db, idempotency_keys = [booked_row]\<rparr>"

text \<open>Calls during which the store fails inside the reservation transaction.\<close>

definition busy_env :: call_env where
  "busy_env = example_env\<lparr>txn_fault := Some ''database is locked''\<rparr>"

definition io_env :: call_env where
  "io_env = example_env\<lparr>txn_fault := Some ''disk I/O error''\<rparr>"

definition internal_error_response :: HttpResponse where
  "internal_error_response =
     \<lparr>http_status = 500,
      http_body = failure INTERNAL_ERROR
        ''An internal error occurred while processing your request'' None\<rparr>"

definition failed_db :: db where
  "failed_db =
     \<lparr>appointments = [],
      idempotency_keys =
        [\<lparr>idempotency_key = ''K1'', request_hash = hashRequest example_runtime example_request,
          response_status = 500, response_body = http_body internal_error_response\<rparr>]\<rparr>"

text \<open>The same instant as in the example request, written with milliseconds.\<close>

definition respelled_request :: BookingRequest where
  "respelled_request =
     \<lparr>patient_id = JStr ''p1'', slot_datetime = JStr ''2030-01-01T10:00:00.000Z''\<rparr>"

text \<open>The same instant once more, written in another time zone.\<close>

definition zoned_request :: BookingRequest where
  "zoned_request =
     \<lparr>patient_id = JStr ''p1'', slot_datetime = JStr ''2030-01-01T12:00:00+02:00''\<rparr>"

definition past_response :: ApiResponse where
  "past_response =
     failure SLOT_IN_PAST ''Cannot book appointments in the past''
       (Some [(''slot_datetime'', JStr ''2030-01-01T10:00:00Z'')])"

text \<open>A call during which the store fails at the lookup of the key.\<close>

definition down_env :: call_env where
  "down_env = example_env\<lparr>get_fault := Some ''disk I/O error''\<rparr>"

text \<open>
  A tool call on Tuesday 2030-01-01 at 10:00 UTC asking for Monday at half past two,
  and the same call once more with other random identifiers.
\<close>

definition voice_args :: "(string \<times> jsval) list" where
  "voice_args =
     [(''patient_name'', JStr ''Ann Lee''), (''patient_phone'', JStr ''+1 (555) 010-9999''),
      (''appointment_date'', JStr ''Monday''), (''appointment_time'', JStr ''2:30 p.m.'')]"

definition voice_call :: voice_env where
  "voice_call =
     \<lparr>today_parse = 1893492000000, today_weekday = 1893492000000,
      now_validate = 1893492000000, appointment_uuid = ''id-1'', key_uuid = ''key-1'',
      booking_fault = None, store_fault = None, query_fault = None\<rparr>"

definition voice_call_again :: voice_env where
  "voice_call_again = voice_call\<lparr>appointment_uuid := ''id-2'', key_uuid := ''key-2''\<rparr>"

definition voice_request :: BookingRequest where
  "voice_request =
     \<lparr>patient_id = JStr ''15550109999'', slot_datetime = JStr ''2030-01-07T14:30:00.000Z''\<rparr>"

definition voice_db :: db where
  "voice_db =
     \<lparr>appointments =
        [\<lparr>appt_id = ''id-1'', appt_patient_id = JStr ''15550109999'',
          appt_slot_datetime = ''2030-01-07T14:30:00.000Z'', appt_status = booked\<rparr>],
      idempotency_keys =
        [\<lparr>idempotency_key = ''key-1'',
          request_hash = hashRequest example_runtime voice_request,
          response_status = 201,
          response_body =
            \<lparr>success = True,
             data = Some \<lparr>appointment_id = ''id-1'', data_patient_id = JStr ''15550109999'',
                          data_slot_datetime = ''2030-01-07T14:30:00.000Z'',
                          data_status = ''booked'',
                          data_message = ''Appointment successfully booked''\<rparr>,
             error = None\<rparr>\<rparr>]\<rparr>"

section \<open>Properties\<close>

declare decimal.simps [simp del]

subsection \<open>The transaction and the slot index\<close>

lemma getBookedSlot_None_iff:
  "getBookedSlot d slot = None \<longleftrightarrow> slot \<notin> set (booked_slots d)"
  by (auto simp: getBookedSlot_def booked_slots_def find_None_iff)

lemma insertAppointment_booked_slots:
  "insertAppointment d i p slot = Inr d' \<Longrightarrow> booked_slots d' = booked_slots d @ [slot]"
  by (auto simp: insertAppointment_def booked_slots_def split: sum.splits if_splits)

lemma insertAppointment_keys:
  "insertAppointment d i p slot = Inr d' \<Longrightarrow> idempotency_keys d' = idempotency_keys d"
  by (auto simp: insertAppointment_def split: sum.splits if_splits)

lemma transaction_cases:
  assumes "bookAppointmentTransaction d fault i p slot = Inr (r, d')"
  shows "(getBookedSlot d slot \<noteq> None \<and> r = TxnFailure ''SLOT_TAKEN'' \<and> d' = d)
       \<or> (getBookedSlot d slot = None \<and> r = TxnSuccess i \<and> insertAppointment d i p slot = Inr d')"
  using assms
  by (auto simp: bookAppointmentTransaction_def split: option.splits sum.splits)

lemma transaction_unique:
  assumes "bookAppointmentTransaction d fault i p slot = Inr (r, d')" "unique_booked_slot d"
  shows "unique_booked_slot d'"
  using transaction_cases[OF assms(1)] assms(2)
  by (auto simp: unique_booked_slot_def getBookedSlot_None_iff dest!: insertAppointment_booked_slots)

lemma cancel_rows:
  "map appt_slot_datetime (filter (\<lambda>a. appt_status a = booked)
      (map (\<lambda>a. if appt_id a = i then a\<lparr>appt_status := cancelled\<rparr> else a) xs)) =
   map appt_slot_datetime (filter (\<lambda>a. appt_id a \<noteq> i) (filter (\<lambda>a. appt_status a = booked) xs))"
  by (induction xs) auto

lemma cancel_unique:
  assumes "unique_booked_slot d"
  shows "unique_booked_slot (cancelAppointment d i)"
proof -
  have "distinct (map appt_slot_datetime
          (filter (\<lambda>a. appt_id a \<noteq> i) (filter (\<lambda>a. appt_status a = booked) (appointments d))))"
    using assms unfolding unique_booked_slot_def booked_slots_def
    by (rule distinct_map_filter)
  then show ?thesis
    unfolding unique_booked_slot_def booked_slots_def cancelAppointment_def
    by (simp add: cancel_rows del: filter_filter)
qed

lemma insertIdempotencyKey_appointments:
  "appointments (insertIdempotencyKey d k h st body) = appointments d"
  by (simp add: insertIdempotencyKey_def)

lemma insertIdempotencyKey_unique:
  "unique_booked_slot (insertIdempotencyKey d k h st body) = unique_booked_slot d"
  by (simp add: unique_booked_slot_def booked_slots_def insertIdempotencyKey_appointments)

lemma storeIdempotencyKey_Inr:
  "\<exists>d'. storeIdempotencyKey rt d fault k request st body = Inr d'"
  by (simp add: storeIdempotencyKey_def insertIdempotencyKey_run_def split: option.splits)

lemma storeIdempotencyKey_cases:
  "storeIdempotencyKey rt d fault k request st body = Inr d' \<Longrightarrow>
     d' = d \<or> (fault = None \<and> d' = insertIdempotencyKey d k (hashRequest rt request) st body)"
  by (auto simp: storeIdempotencyKey_def insertIdempotencyKey_run_def split: option.splits)

lemma storeIdempotencyKey_unique:
  "storeIdempotencyKey rt d fault k request st body = Inr d' \<Longrightarrow>
     unique_booked_slot d' = unique_booked_slot d"
  by (auto dest!: storeIdempotencyKey_cases simp: insertIdempotencyKey_unique)

lemma bookAppointment_cases:
  assumes "bookAppointment rt d fault i request = Inr (res, d')"
  shows "d' = d \<or> (\<exists>t r. new_Date rt (slot_datetime request) = Some t \<and>
           bookAppointmentTransaction d fault i (patient_id request) (toISOString t) = Inr (r, d'))"
  using assms
  by (auto simp: bookAppointment_def Let_def
           split: option.splits sum.splits TransactionResult.splits if_splits prod.splits)

lemma bookAppointment_unique:
  assumes "bookAppointment rt d fault i request = Inr (res, d')" "unique_booked_slot d"
  shows "unique_booked_slot d'"
  using bookAppointment_cases[OF assms(1)] assms(2) transaction_unique by blast

lemma book_unique:
  assumes "book rt env d k request = (resp, d')" "unique_booked_slot d"
  shows "unique_booked_slot d'"
  using assms
  by (auto simp: book_def split: sum.splits IdempotencyCheck.splits option.splits if_splits prod.splits
           dest: bookAppointment_unique storeIdempotencyKey_unique)


text \<open>What a tool call can do to the store: at most one booking, then one key.\<close>

lemma bookAndReply_effect:
  assumes "bookAndReply rt env d args slotDatetime slotDate patientId = Inr (res, d')"
  shows "d' = d \<or>
         (\<exists>request result dm.
            bookAppointment rt d (booking_fault env) (appointment_uuid env) request
              = Inr (result, dm) \<and>
            (d' = dm \<or>
             (success (response result) \<and>
              storeIdempotencyKey rt dm (store_fault env) (key_uuid env) request
                (status result) (response result) = Inr d')))"
  using assms unfolding bookAndReply_def Let_def
  by (auto split: if_splits option.splits sum.splits prod.splits)

lemma handleBookAppointment_stages:
  assumes "handleBookAppointment rt env d args = Inr (res, d')"
  shows "d' = d \<or>
         (\<exists>slotDatetime slotDate patientId.
            bookAndReply rt env d args slotDatetime slotDate patientId = Inr (res, d'))"
  using assms unfolding handleBookAppointment_def Let_def
  by (auto split: if_splits option.splits sum.splits Check.splits)

lemma handleBookAppointment_effect:
  assumes "handleBookAppointment rt env d args = Inr (res, d')"
  shows "d' = d \<or>
         (\<exists>request result dm.
            bookAppointment rt d (booking_fault env) (appointment_uuid env) request
              = Inr (result, dm) \<and>
            (d' = dm \<or>
             (success (response result) \<and>
              storeIdempotencyKey rt dm (store_fault env) (key_uuid env) request
                (status result) (response result) = Inr d')))"
  using handleBookAppointment_stages[OF assms] bookAndReply_effect by blast

lemma handleBookAppointment_unique:
  assumes "handleBookAppointment rt env d args = Inr (res, d')" "unique_booked_slot d"
  shows "unique_booked_slot d'"
  using handleBookAppointment_effect[OF assms(1)] assms(2)
  by (auto dest: bookAppointment_unique storeIdempotencyKey_unique)

lemma reachable_unique: "reachable d \<Longrightarrow> unique_booked_slot d"
proof (induction rule: reachable.induct)
  case initial
  show ?case by (simp add: unique_booked_slot_def booked_slots_def empty_db_def)
next
  case (transaction d fault i p slot r d')
  then show ?case by (blast intro: transaction_unique)
next
  case (record_key d k h st body)
  then show ?case by (simp add: insertIdempotencyKey_unique)
next
  case (cancel d i)
  then show ?case by (simp add: cancel_unique)
next
  case (service d rt fault i request res d')
  then show ?case by (blast intro: bookAppointment_unique)
next
  case (route d rt env k request resp d')
  then show ?case by (blast intro: book_unique)
next
  case (voice d rt venv args res d')
  then show ?case by (blast intro: handleBookAppointment_unique)
qed

text \<open>
  C1. In every reachable state of the store no two booked rows hold the same slot; the
  transaction keeps it so, and on a slot that already has a booked row it reports
  SLOT_TAKEN and leaves the store as it was.
\<close>

theorem one_booked_row_per_slot:
  assumes "reachable d"
  shows "unique_booked_slot d \<and>
         (\<forall>fault i p slot r d'.
            bookAppointmentTransaction d fault i p slot = Inr (r, d') \<longrightarrow>
              unique_booked_slot d' \<and>
              (slot \<in> set (booked_slots d) \<longrightarrow> r = TxnFailure ''SLOT_TAKEN'' \<and> d' = d))"
proof -
  have u: "unique_booked_slot d" using assms by (rule reachable_unique)
  have "unique_booked_slot d' \<and>
        (slot \<in> set (booked_slots d) \<longrightarrow> r = TxnFailure ''SLOT_TAKEN'' \<and> d' = d)"
    if t: "bookAppointmentTransaction d fault i p slot = Inr (r, d')" for fault i p slot r d'
    using transaction_cases[OF t] transaction_unique[OF t u]
    by (auto simp: getBookedSlot_None_iff)
  with u show ?thesis by blast
qed

theorem one_booked_row_per_slot_witness:
  "reachable example_db \<and> unique_booked_slot example_db \<and>
   (bookAppointmentTransaction example_db None ''id-2'' (JStr ''p2'') ''2030-01-01T10:00:00.000Z''
      = Inr (TxnFailure ''SLOT_TAKEN'', example_db))"
proof -
  have t: "bookAppointmentTransaction empty_db None ''id-1'' (JStr ''p1'')
             ''2030-01-01T10:00:00.000Z'' = Inr (TxnSuccess ''id-1'', example_db)"
    by code_simp
  have r: "reachable example_db"
    by (rule reachable.transaction[OF reachable.initial t])
  have s: "bookAppointmentTransaction example_db None ''id-2'' (JStr ''p2'')
             ''2030-01-01T10:00:00.000Z'' = Inr (TxnFailure ''SLOT_TAKEN'', example_db)"
    by code_simp
  from one_booked_row_per_slot[OF r] have "unique_booked_slot example_db" by blast
  with r s show ?thesis by blast
qed

subsection \<open>The idempotency table\<close>

lemma getIdempotencyKey_None_iff:
  "getIdempotencyKey d k = None \<longleftrightarrow> k \<notin> idempotency_key ` set (idempotency_keys d)"
  by (auto simp: getIdempotencyKey_def find_None_iff)

lemma find_snoc:
  "find P (xs @ [x]) = (case find P xs of Some y \<Rightarrow> Some y | None \<Rightarrow> if P x then Some x else None)"
  by (induction xs) auto

lemma getIdempotencyKey_insert:
  "getIdempotencyKey (insertIdempotencyKey d k h st body) k' =
     (case getIdempotencyKey d k' of
        Some row \<Rightarrow> Some row
      | None \<Rightarrow> if k' = k
                then Some \<lparr>idempotency_key = k, request_hash = h, response_status = st,
                            response_body = body\<rparr>
                else None)"
  by (auto simp: insertIdempotencyKey_def getIdempotencyKey_def find_snoc find_None_iff
           split: option.splits)

lemma insertIdempotencyKey_present:
  "getIdempotencyKey d k \<noteq> None \<Longrightarrow> insertIdempotencyKey d k h st body = d"
  by (auto simp: insertIdempotencyKey_def getIdempotencyKey_None_iff)

lemma insertIdempotencyKey_distinct:
  "distinct (map idempotency_key (idempotency_keys d)) \<Longrightarrow>
   distinct (map idempotency_key (idempotency_keys (insertIdempotencyKey d k h st body)))"
  by (auto simp: insertIdempotencyKey_def)

text \<open>
  C9. \<open>storeIdempotencyKey\<close> always returns normally, whatever the store answers to the
  insertion, and leaves the appointments alone. When the key has no record and the store
  accepts the insertion, the table gains exactly one row, the record of this fingerprint,
  status and body under the key. When the key already has a record, or the store refuses
  the insertion, nothing changes at all. In every case each record that was there is
  still there as it was, and the keys of the table stay distinct.
\<close>

theorem record_is_insert_if_absent:
  "\<exists>d'. storeIdempotencyKey rt d fault k request st body = Inr d'
       \<and> appointments d' = appointments d
       \<and> (getIdempotencyKey d k = None \<and> fault = None \<longrightarrow>
            idempotency_keys d' = idempotency_keys d @
              [\<lparr>idempotency_key = k, request_hash = hashRequest rt request,
                response_status = st, response_body = body\<rparr>] \<and>
            getIdempotencyKey d' k =
              Some \<lparr>idempotency_key = k, request_hash = hashRequest rt request,
                     response_status = st, response_body = body\<rparr>)
       \<and> (getIdempotencyKey d k \<noteq> None \<longrightarrow> d' = d)
       \<and> (fault \<noteq> None \<longrightarrow> d' = d)
       \<and> (\<forall>k' row. getIdempotencyKey d k' = Some row \<longrightarrow> getIdempotencyKey d' k' = Some row)
       \<and> (distinct (map idempotency_key (idempotency_keys d)) \<longrightarrow>
            distinct (map idempotency_key (idempotency_keys d')))"
proof (cases fault)
  case None
  let ?d = "insertIdempotencyKey d k (hashRequest rt request) st body"
  have run: "storeIdempotencyKey rt d fault k request st body = Inr ?d"
    using None by (simp add: storeIdempotencyKey_def insertIdempotencyKey_run_def)
  have added: "idempotency_keys ?d = idempotency_keys d @
                 [\<lparr>idempotency_key = k, request_hash = hashRequest rt request,
                   response_status = st, response_body = body\<rparr>]"
    if "getIdempotencyKey d k = None"
    using that by (auto simp: insertIdempotencyKey_def getIdempotencyKey_None_iff)
  from run added show ?thesis
    by (simp add: insertIdempotencyKey_appointments insertIdempotencyKey_present
                  getIdempotencyKey_insert insertIdempotencyKey_distinct None)
next
  case (Some m)
  then have "storeIdempotencyKey rt d fault k request st body = Inr d"
    by (simp add: storeIdempotencyKey_def insertIdempotencyKey_run_def)
  with Some show ?thesis by simp
qed

text \<open>The example calls, evaluated once.\<close>

lemma example_booking:
  "book example_runtime example_env empty_db ''K1'' example_request = (booked_response, booked_db)"
  by code_simp

lemma example_record: "getIdempotencyKey booked_db ''K1'' = Some booked_row"
  by code_simp

text \<open>
  The first insertion under K1 puts the record there; a second one under the same key,
  for another request, status and body, changes nothing; neither does an insertion that
  the store refuses.
\<close>

theorem record_is_insert_if_absent_witness:
  "storeIdempotencyKey example_runtime example_db None ''K1'' example_request 201
     (http_body booked_response) = Inr booked_db \<and>
   getIdempotencyKey booked_db ''K1'' = Some booked_row \<and>
   storeIdempotencyKey example_runtime booked_db None ''K1'' respelled_request 500
     (http_body internal_error_response) = Inr booked_db \<and>
   storeIdempotencyKey example_runtime example_db (Some ''disk I/O error'') ''K1''
     example_request 201 (http_body booked_response) = Inr example_db"
proof -
  have absent: "getIdempotencyKey example_db ''K1'' = None"
    by code_simp
  have first: "storeIdempotencyKey example_runtime example_db None ''K1'' example_request 201
                 (http_body booked_response) = Inr booked_db"
    by code_simp
  from record_is_insert_if_absent
         [where rt = example_runtime and d = example_db and fault = None and k = "''K1''"
            and request = example_request and st = 201 and body = "http_body booked_response"]
  obtain d1 where
    "storeIdempotencyKey example_runtime example_db None ''K1'' example_request 201
       (http_body booked_response) = Inr d1"
    and "getIdempotencyKey example_db ''K1'' = None \<and> (None :: string option) = None \<longrightarrow>
           idempotency_keys d1 = idempotency_keys example_db @
             [\<lparr>idempotency_key = ''K1'',
               request_hash = hashRequest example_runtime example_request,
               response_status = 201, response_body = http_body booked_response\<rparr>] \<and>
           getIdempotencyKey d1 ''K1'' =
             Some \<lparr>idempotency_key = ''K1'',
                    request_hash = hashRequest example_runtime example_request,
                    response_status = 201, response_body = http_body booked_response\<rparr>"
    by blast
  with absent first have present: "getIdempotencyKey booked_db ''K1'' = Some booked_row"
    by (simp add: booked_row_def)
  from record_is_insert_if_absent
         [where rt = example_runtime and d = booked_db and fault = None and k = "''K1''"
            and request = respelled_request and st = 500
            and body = "http_body internal_error_response"]
  obtain d2 where
    "storeIdempotencyKey example_runtime booked_db None ''K1'' respelled_request 500
       (http_body internal_error_response) = Inr d2"
    and "getIdempotencyKey booked_db ''K1'' \<noteq> None \<longrightarrow> d2 = booked_db"
    by blast
  with present have second: "storeIdempotencyKey example_runtime booked_db None ''K1''
      respelled_request 500 (http_body internal_error_response) = Inr booked_db"
    by simp
  from record_is_insert_if_absent
         [where rt = example_runtime and d = example_db and fault = "Some ''disk I/O error''"
            and k = "''K1''" and request = example_request and st = 201
            and body = "http_body booked_response"]
  obtain d3 where
    "storeIdempotencyKey example_runtime example_db (Some ''disk I/O error'') ''K1''
       example_request 201 (http_body booked_response) = Inr d3"
    and "Some ''disk I/O error'' \<noteq> (None :: string option) \<longrightarrow> d3 = example_db"
    by blast
  then have third: "storeIdempotencyKey example_runtime example_db (Some ''disk I/O error'')
      ''K1'' example_request 201 (http_body booked_response) = Inr example_db"
    by simp
  from first present second third show ?thesis by blast
qed

subsection \<open>The route\<close>

lemma bookAppointment_keys:
  "bookAppointment rt d fault i request = Inr (res, d') \<Longrightarrow>
     idempotency_keys d' = idempotency_keys d"
  by (auto simp: bookAppointment_def bookAppointmentTransaction_def Let_def
           split: option.splits sum.splits TransactionResult.splits if_splits prod.splits
           dest: insertAppointment_keys)

lemma bookAppointment_getIdempotencyKey:
  "bookAppointment rt d fault i request = Inr (res, d') \<Longrightarrow>
     getIdempotencyKey d' k = getIdempotencyKey d k"
  by (simp add: getIdempotencyKey_def bookAppointment_keys)

lemma insertAppointment_length:
  "insertAppointment d i p slot = Inr d' \<Longrightarrow>
     length (appointments d') = length (appointments d) + 1"
  by (auto simp: insertAppointment_def split: sum.splits if_splits)

lemma bookAppointment_length:
  "bookAppointment rt d fault i request = Inr (res, d') \<Longrightarrow>
     length (appointments d') \<le> length (appointments d) + 1"
  by (auto simp: bookAppointment_def bookAppointmentTransaction_def Let_def
           split: option.splits sum.splits TransactionResult.splits if_splits prod.splits
           dest: insertAppointment_length)

lemma checkIdempotencyKey_absent:
  "getIdempotencyKey d k = None \<Longrightarrow> checkIdempotencyKey rt d None k request = Inr NotFound"
  by (simp add: checkIdempotencyKey_def getIdempotencyKey_get_def)

lemma checkIdempotencyKey_present:
  "getIdempotencyKey d k = Some row \<Longrightarrow>
     checkIdempotencyKey rt d None k request =
       (if request_hash row \<noteq> hashRequest rt request then Inr Mismatch
        else Inr (Cached (response_status row) (response_body row)))"
  by (simp add: checkIdempotencyKey_def getIdempotencyKey_get_def)

lemma checkIdempotencyKey_fault:
  "checkIdempotencyKey rt d (Some m) k request = Inl (Error m)"
  by (simp add: checkIdempotencyKey_def getIdempotencyKey_get_def)

lemma store_getIdempotencyKey:
  assumes "storeIdempotencyKey rt d fault k request st body = Inr d'"
      and "getIdempotencyKey d k = None" "getIdempotencyKey d' k = Some row"
  shows "row = \<lparr>idempotency_key = k, request_hash = hashRequest rt request,
                 response_status = st, response_body = body\<rparr>"
  using storeIdempotencyKey_cases[OF assms(1)] assms(2,3)
  by (auto simp: getIdempotencyKey_insert)

lemma store_appointments:
  "storeIdempotencyKey rt d fault k request st body = Inr d' \<Longrightarrow>
     appointments d' = appointments d"
  by (auto dest!: storeIdempotencyKey_cases simp: insertIdempotencyKey_appointments)

text \<open>What a call on a key without a record leaves under the key.\<close>

lemma book_fresh_record:
  assumes "getIdempotencyKey d k = None" "book rt env d k request = (resp, d1)"
      and "getIdempotencyKey d1 k = Some row"
  shows "row = \<lparr>idempotency_key = k, request_hash = hashRequest rt request,
                 response_status = http_status resp, response_body = http_body resp\<rparr>"
proof (cases "get_fault env")
  case (Some m)
  with assms show ?thesis by (simp add: book_def checkIdempotencyKey_fault)
next
  case None
  note chk = checkIdempotencyKey_absent[OF assms(1), of rt request]
  show ?thesis
  proof (cases "validateRequest rt (now env) request")
    case (Some err)
    with assms None chk show ?thesis
      by (auto simp: book_def split: sum.splits dest: store_getIdempotencyKey)
  next
    case vNone: None
    show ?thesis
    proof (cases "bookAppointment rt d (txn_fault env) (randomUUID env) request")
      case (Inl e)
      with assms None chk vNone show ?thesis by (simp add: book_def)
    next
      case (Inr p)
      obtain res d' where p: "p = (res, d')" by (cases p)
      have k': "getIdempotencyKey d' k = None"
        using Inr p assms(1) by (simp add: bookAppointment_getIdempotencyKey)
      with assms None chk vNone Inr p show ?thesis
        by (auto simp: book_def split: sum.splits if_splits dest: store_getIdempotencyKey)
    qed
  qed
qed

lemma book_length:
  "book rt env d k request = (resp, d1) \<Longrightarrow>
     length (appointments d1) \<le> length (appointments d) + 1"
  by (auto simp: book_def
           split: sum.splits IdempotencyCheck.splits option.splits if_splits prod.splits
           dest!: bookAppointment_length store_appointments)

text \<open>
  C8. A key is used for the first time with one request, and the call leaves a record
  under it. A later call with the same key and a request of another fingerprint, whose
  lookup the store answers, is refused with IDEMPOTENCY_KEY_MISMATCH, and the store is
  exactly as before: no reservation, no new record. The answer is the same for every
  clock, identifier and store error of the later call, so nothing after the lookup ran.
\<close>

theorem key_reuse_with_other_request:
  assumes "getIdempotencyKey d k = None"
      and "book rt env1 d k request1 = (resp1, d1)"
      and "getIdempotencyKey d1 k \<noteq> None"
      and "hashRequest rt request2 \<noteq> hashRequest rt request1"
      and "get_fault env2 = None"
  shows "book rt env2 d1 k request2 = (key_mismatch, d1) \<and>
         http_status key_mismatch = 422 \<and>
         map_option code (error (http_body key_mismatch)) = Some IDEMPOTENCY_KEY_MISMATCH"
proof -
  from assms(3) obtain row where row: "getIdempotencyKey d1 k = Some row" by blast
  from book_fresh_record[OF assms(1,2) row] have "request_hash row = hashRequest rt request1"
    by simp
  with assms(4,5) row show ?thesis
    by (simp add: book_def checkIdempotencyKey_present key_mismatch_def failure_def)
qed

theorem key_reuse_with_other_request_witness:
  "book example_runtime example_env empty_db ''K1'' example_request = (booked_response, booked_db) \<and>
   book example_runtime later_env booked_db ''K1'' respelled_request = (key_mismatch, booked_db)"
proof -
  have 1: "getIdempotencyKey empty_db ''K1'' = None" by code_simp
  note 2 = example_booking
  have 3: "getIdempotencyKey booked_db ''K1'' \<noteq> None" by (simp add: example_record)
  have 4: "hashRequest example_runtime respelled_request
             \<noteq> hashRequest example_runtime example_request" by code_simp
  have 5: "get_fault later_env = None" by code_simp
  from key_reuse_with_other_request[OF 1 2 3 4 5] 2 show ?thesis by blast
qed

text \<open>
  C2. A first call whose lookup the store answered ends with a record under the key
  that carries the fingerprint of the request. Then a second call with the same key and
  request, at any later time, returns the very response of the first call, status and
  body, and leaves the store as it was; the first call has added at most one row to
  the appointments. This holds for every request, valid or not.
\<close>

theorem idempotent_replay:
  assumes "get_fault env1 = None"
      and "book rt env1 d k request = (resp1, d1)"
      and "getIdempotencyKey d1 k = Some row"
      and "request_hash row = hashRequest rt request"
      and "get_fault env2 = None"
  shows "book rt env2 d1 k request = (resp1, d1) \<and>
         length (appointments d1) \<le> length (appointments d) + 1"
proof -
  have replay: "book rt env2 d1 k request =
                  (\<lparr>http_status = response_status row, http_body = response_body row\<rparr>, d1)"
    using assms(3,4,5) by (simp add: book_def checkIdempotencyKey_present)
  have "resp1 = \<lparr>http_status = response_status row, http_body = response_body row\<rparr>"
  proof (cases "getIdempotencyKey d k")
    case None
    from book_fresh_record[OF None assms(2,3)] show ?thesis by simp
  next
    case (Some row0)
    with assms(1,2) have "d1 = d"
      by (auto simp: book_def checkIdempotencyKey_present split: if_splits)
    with Some assms(3) have "row0 = row" by simp
    with Some assms(1,2,4) show ?thesis
      by (auto simp: book_def checkIdempotencyKey_present split: if_splits)
  qed
  with replay book_length[OF assms(2)] show ?thesis by simp
qed

theorem idempotent_replay_witness:
  "book example_runtime example_env empty_db ''K1'' example_request = (booked_response, booked_db) \<and>
   book example_runtime later_env booked_db ''K1'' example_request = (booked_response, booked_db) \<and>
   length (appointments booked_db) \<le> length (appointments empty_db) + 1"
proof -
  have 1: "get_fault example_env = None" by code_simp
  note 2 = example_booking
  note 3 = example_record
  have 4: "request_hash booked_row = hashRequest example_runtime example_request"
    by (simp add: booked_row_def)
  have 5: "get_fault later_env = None" by code_simp
  from idempotent_replay[OF 1 2 3 4 5] 2 show ?thesis by blast
qed

subsection \<open>Errors of the store during the reservation\<close>

text \<open>
  C6. Whenever the reservation transaction throws an error whose message contains
  \<open>UNIQUE constraint failed\<close>, \<open>bookAppointment\<close> returns the result 409 SLOT_TAKEN with the
  normalized slot in its details and the store as it was: the same result the
  transaction's own check gives on a slot that is already booked. It is a result, not
  an exception, and its code is not INTERNAL_ERROR.
\<close>

theorem unique_violation_is_slot_taken:
  assumes "new_Date rt (slot_datetime request) = Some t"
      and "bookAppointmentTransaction d fault i (patient_id request) (toISOString t) = Inl e"
      and "str_includes (message_of e) ''UNIQUE constraint failed''"
  shows "bookAppointment rt d fault i request = Inr (slot_taken_result (toISOString t), d) \<and>
         status (slot_taken_result (toISOString t)) = 409 \<and>
         map_option code (error (response (slot_taken_result (toISOString t)))) = Some SLOT_TAKEN \<and>
         (\<forall>d0 i0. getBookedSlot d0 (toISOString t) \<noteq> None \<longrightarrow>
            bookAppointment rt d0 None i0 request = Inr (slot_taken_result (toISOString t), d0))"
proof -
  have thrown: "bookAppointment rt d fault i request = Inr (slot_taken_result (toISOString t), d)"
    using assms by (simp add: bookAppointment_def)
  have checked: "bookAppointment rt d0 None i0 request = Inr (slot_taken_result (toISOString t), d0)"
    if "getBookedSlot d0 (toISOString t) \<noteq> None" for d0 i0
    using that assms(1) by (auto simp: bookAppointment_def bookAppointmentTransaction_def)
  show ?thesis
    using thrown checked by (simp add: slot_taken_result_def failure_def)
qed

theorem unique_violation_is_slot_taken_witness:
  "bookAppointment example_runtime empty_db
     (Some ''UNIQUE constraint failed: appointments.slot_datetime'') ''id-1'' example_request
     = Inr (slot_taken_result ''2030-01-01T10:00:00.000Z'', empty_db) \<and>
   bookAppointment example_runtime example_db None ''id-2'' example_request
     = Inr (slot_taken_result ''2030-01-01T10:00:00.000Z'', example_db)"
proof -
  have 1: "new_Date example_runtime (slot_datetime example_request) = Some 1893492000000"
    by code_simp
  have 2: "bookAppointmentTransaction empty_db
             (Some ''UNIQUE constraint failed: appointments.slot_datetime'') ''id-1''
             (patient_id example_request) (toISOString 1893492000000)
           = Inl (Error ''UNIQUE constraint failed: appointments.slot_datetime'')"
    by (simp add: bookAppointmentTransaction_def)
  have 3: "str_includes
             (message_of (Error ''UNIQUE constraint failed: appointments.slot_datetime''))
             ''UNIQUE constraint failed''"
    by code_simp
  have 4: "toISOString 1893492000000 = ''2030-01-01T10:00:00.000Z''"
    by code_simp
  have 5: "getBookedSlot example_db ''2030-01-01T10:00:00.000Z'' \<noteq> None"
    by code_simp
  from unique_violation_is_slot_taken[OF 1 2 3] 5 show ?thesis
    unfolding 4 by blast
qed

text \<open>
  \<open>bookAppointment\<close> has no result with the code LOCK_TIMEOUT, so the route's test for
  it never fails and every result of \<open>bookAppointment\<close> goes to the idempotency table.
\<close>

lemma bookAppointment_never_LOCK_TIMEOUT:
  "bookAppointment rt d fault i request = Inr (res, d') \<Longrightarrow>
     map_option code (error (response res)) \<noteq> Some LOCK_TIMEOUT"
  by (auto simp: bookAppointment_def Let_def slot_taken_result_def failure_def
           split: option.splits sum.splits TransactionResult.splits if_splits prod.splits)

text \<open>
  C4. The store answers the transaction of a valid request on a fresh key with
  \<open>database is locked\<close>. The route returns 500 INTERNAL_ERROR, not LOCK_TIMEOUT, and
  records it under the key; a retry with the same key, which meets no error, gets the
  recorded INTERNAL_ERROR back and books nothing.
\<close>

theorem lock_contention_is_cached_internal_error:
  "book example_runtime busy_env empty_db ''K1'' example_request
     = (internal_error_response, failed_db) \<and>
   map_option code (error (http_body internal_error_response)) = Some INTERNAL_ERROR \<and>
   getIdempotencyKey failed_db ''K1'' \<noteq> None \<and>
   book example_runtime example_env failed_db ''K1'' example_request
     = (internal_error_response, failed_db)"
  by code_simp

text \<open>A request the validator accepts has a slot that is a date, so the service returns.\<close>

lemma validated_slot_is_date:
  "validateRequest rt clock request = None \<Longrightarrow> \<exists>t. new_Date rt (slot_datetime request) = Some t"
  by (auto simp: validateRequest_def split: if_splits option.splits)

lemma bookAppointment_returns:
  assumes "new_Date rt (slot_datetime request) = Some t"
  shows "\<exists>result d'. bookAppointment rt d fault i request = Inr (result, d')"
  using assms
  by (auto simp: bookAppointment_def Let_def
           split: sum.splits TransactionResult.splits prod.splits)

text \<open>
  C5, as the code has it. The one exception that reaches the catch of the route is a
  lookup of the key that throws: a request the validator accepts never makes
  \<open>bookAppointment\<close> throw. In that case \<open>book\<close> returns INTERNAL_ERROR and leaves the
  store exactly as it was; a key that had no record still has none, so a retry whose
  lookup the store answers finds nothing under the key and goes on to validation and the
  reservation. An INTERNAL_ERROR that \<open>bookAppointment\<close> returns as its result is recorded
  under the key like every result that is not LOCK_TIMEOUT, when the store accepts the
  insertion, and a retry with the same key and request gets it back.
\<close>

theorem internal_error_recorded_unless_caught:
  "(checkIdempotencyKey rt d (get_fault env) k request = Inl e \<longrightarrow>
      book rt env d k request = (unexpected_error, d) \<and>
      (getIdempotencyKey d k = None \<longrightarrow>
         (\<forall>env2. get_fault env2 = None \<longrightarrow>
            checkIdempotencyKey rt (snd (book rt env d k request)) (get_fault env2) k request
              = Inr NotFound))) \<and>
   map_option code (error (http_body unexpected_error)) = Some INTERNAL_ERROR \<and>
   (validateRequest rt (now env) request = None \<longrightarrow>
      (\<exists>result d'. bookAppointment rt d (txn_fault env) (randomUUID env) request
                     = Inr (result, d'))) \<and>
   (checkIdempotencyKey rt d (get_fault env) k request = Inr NotFound \<and>
    validateRequest rt (now env) request = None \<and>
    bookAppointment rt d (txn_fault env) (randomUUID env) request = Inr (result, d') \<and>
    map_option code (error (response result)) = Some INTERNAL_ERROR \<and>
    insert_fault env = None \<longrightarrow>
      (\<exists>d''. book rt env d k request
                = (\<lparr>http_status = status result, http_body = response result\<rparr>, d'') \<and>
             getIdempotencyKey d'' k
                = Some \<lparr>idempotency_key = k, request_hash = hashRequest rt request,
                         response_status = status result, response_body = response result\<rparr> \<and>
             (\<forall>env2. get_fault env2 = None \<longrightarrow>
                book rt env2 d'' k request
                  = (\<lparr>http_status = status result, http_body = response result\<rparr>, d''))))"
proof -
  have recorded:
    "\<exists>d''. book rt env d k request
              = (\<lparr>http_status = status result, http_body = response result\<rparr>, d'') \<and>
           getIdempotencyKey d'' k
              = Some \<lparr>idempotency_key = k, request_hash = hashRequest rt request,
                       response_status = status result, response_body = response result\<rparr> \<and>
           (\<forall>env2. get_fault env2 = None \<longrightarrow>
              book rt env2 d'' k request
                = (\<lparr>http_status = status result, http_body = response result\<rparr>, d''))"
    if chk: "checkIdempotencyKey rt d (get_fault env) k request = Inr NotFound"
      and v: "validateRequest rt (now env) request = None"
      and b: "bookAppointment rt d (txn_fault env) (randomUUID env) request = Inr (result, d')"
      and c: "map_option code (error (response result)) = Some INTERNAL_ERROR"
      and f: "insert_fault env = None"
  proof -
    let ?d = "insertIdempotencyKey d' k (hashRequest rt request) (status result) (response result)"
    let ?resp = "\<lparr>http_status = status result, http_body = response result\<rparr>"
    have absent: "getIdempotencyKey d k = None"
      using chk
      by (auto simp: checkIdempotencyKey_def getIdempotencyKey_get_def
               split: option.splits if_splits)
    then have absent': "getIdempotencyKey d' k = None"
      using b by (simp add: bookAppointment_getIdempotencyKey)
    have first: "book rt env d k request = (?resp, ?d)"
      using chk v b c f
      by (auto simp: book_def storeIdempotencyKey_def insertIdempotencyKey_run_def)
    have row: "getIdempotencyKey ?d k
                 = Some \<lparr>idempotency_key = k, request_hash = hashRequest rt request,
                          response_status = status result, response_body = response result\<rparr>"
      using absent' by (simp add: getIdempotencyKey_insert)
    have "book rt env2 ?d k request = (?resp, ?d)" if "get_fault env2 = None" for env2
      using that row by (simp add: book_def checkIdempotencyKey_present)
    with first row show ?thesis by blast
  qed
  have caught: "book rt env d k request = (unexpected_error, d) \<and>
                (getIdempotencyKey d k = None \<longrightarrow>
                   (\<forall>env2. get_fault env2 = None \<longrightarrow>
                      checkIdempotencyKey rt (snd (book rt env d k request)) (get_fault env2)
                        k request = Inr NotFound))"
    if "checkIdempotencyKey rt d (get_fault env) k request = Inl e"
    using that by (simp add: book_def checkIdempotencyKey_absent)
  have code: "map_option code (error (http_body unexpected_error)) = Some INTERNAL_ERROR"
    by (simp add: unexpected_error_def failure_def)
  have returns: "\<exists>result d'. bookAppointment rt d (txn_fault env) (randomUUID env) request
                               = Inr (result, d')"
    if "validateRequest rt (now env) request = None"
    using validated_slot_is_date[OF that] bookAppointment_returns by blast
  show ?thesis
    using caught code returns recorded by blast
qed

theorem internal_error_recorded_unless_caught_witness:
  "book example_runtime io_env empty_db ''K1'' example_request
     = (internal_error_response, failed_db) \<and>
   book example_runtime example_env failed_db ''K1'' example_request
     = (internal_error_response, failed_db) \<and>
   book example_runtime down_env empty_db ''K1'' example_request = (unexpected_error, empty_db) \<and>
   checkIdempotencyKey example_runtime
     (snd (book example_runtime down_env empty_db ''K1'' example_request))
     (get_fault example_env) ''K1'' example_request = Inr NotFound \<and>
   (\<exists>result d'. bookAppointment example_runtime empty_db (txn_fault io_env) (randomUUID io_env)
                  example_request = Inr (result, d'))"
proof -
  let ?result = "\<lparr>status = 500, response = http_body internal_error_response\<rparr>"
  have chk: "checkIdempotencyKey example_runtime empty_db (get_fault io_env) ''K1''
               example_request = Inr NotFound" by code_simp
  have v: "validateRequest example_runtime (now io_env) example_request = None" by code_simp
  have b: "bookAppointment example_runtime empty_db (txn_fault io_env) (randomUUID io_env)
             example_request = Inr (?result, empty_db)" by code_simp
  have c: "map_option code (error (response ?result)) = Some INTERNAL_ERROR" by code_simp
  have f: "insert_fault io_env = None" by code_simp
  have g: "get_fault example_env = None" by code_simp
  have first: "book example_runtime io_env empty_db ''K1'' example_request
                 = (internal_error_response, failed_db)" by code_simp
  have resp: "\<lparr>http_status = status ?result, http_body = response ?result\<rparr>
                = internal_error_response"
    by (simp add: internal_error_response_def)
  have down: "checkIdempotencyKey example_runtime empty_db (get_fault down_env) ''K1''
                example_request = Inl (Error ''disk I/O error'')" by code_simp
  have absent: "getIdempotencyKey empty_db ''K1'' = None" by code_simp
  note T = internal_error_recorded_unless_caught
             [where rt = example_runtime and d = empty_db and env = io_env and k = "''K1''"
                and request = example_request and result = ?result and d' = empty_db]
  from T chk v b c f
  obtain d'' where
    x: "book example_runtime io_env empty_db ''K1'' example_request
          = (\<lparr>http_status = status ?result, http_body = response ?result\<rparr>, d'')"
    and y: "\<forall>env2. get_fault env2 = None \<longrightarrow>
              book example_runtime env2 d'' ''K1'' example_request
                = (\<lparr>http_status = status ?result, http_body = response ?result\<rparr>, d'')"
    by blast
  from x first have d'': "d'' = failed_db" by simp
  from y g d'' have retry: "book example_runtime example_env failed_db ''K1'' example_request
                              = (internal_error_response, failed_db)"
    unfolding resp by blast
  from T v have returns:
    "\<exists>result d'. bookAppointment example_runtime empty_db (txn_fault io_env) (randomUUID io_env)
                    example_request = Inr (result, d')"
    by blast
  note U = internal_error_recorded_unless_caught
             [where rt = example_runtime and d = empty_db and env = down_env and k = "''K1''"
                and request = example_request and e = "Error ''disk I/O error''"]
  from U down absent g
  have caught: "book example_runtime down_env empty_db ''K1'' example_request
                  = (unexpected_error, empty_db)"
    and again: "checkIdempotencyKey example_runtime
                  (snd (book example_runtime down_env empty_db ''K1'' example_request))
                  (get_fault example_env) ''K1'' example_request = Inr NotFound"
    by blast+
  from first retry caught again returns show ?thesis by blast
qed

theorem internal_error_is_recorded:
  "map_option code (error (http_body (fst (book example_runtime io_env empty_db ''K1''
      example_request)))) = Some INTERNAL_ERROR \<and>
   getIdempotencyKey (snd (book example_runtime io_env empty_db ''K1'' example_request)) ''K1''
     \<noteq> None"
  by code_simp

subsection \<open>The fingerprint\<close>

lemma digit_inj: "a < 16 \<Longrightarrow> b < 16 \<Longrightarrow> digit a = digit b \<Longrightarrow> a = b"
proof -
  have d: "distinct ''0123456789abcdef''" by simp
  have l: "length ''0123456789abcdef'' = 16" by simp
  assume "a < 16" "b < 16" "digit a = digit b"
  then show ?thesis
    using d l unfolding digit_def
    by (simp only: nth_eq_iff_index_eq)
qed

lemma low_code:
  assumes "(n::nat) < 32" "m < 32" "digit (n div 16) = digit (m div 16)"
          "digit (n mod 16) = digit (m mod 16)"
  shows "n = m"
proof -
  have "n div 16 = m div 16" using assms(1,2,3) by (intro digit_inj) auto
  moreover have "n mod 16 = m mod 16" using assms(4) by (intro digit_inj) auto
  ultimately show ?thesis by (metis div_mult_mod_eq)
qed

lemma quote_unit_shape:
  "quote_unit c =
     (if plain_unit c then [c]
      else case short_escape c of
             Some k \<Rightarrow> [CHR 0x5C, k]
           | None \<Rightarrow> [CHR 0x5C, CHR ''u'', CHR ''0'', CHR ''0'',
                       digit (of_char c div 16), digit (of_char c mod 16)])"
  unfolding quote_unit_def plain_unit_def short_escape_def Let_def
  by simp

lemma char_by_code: "(of_char c :: nat) = n \<Longrightarrow> of_char c' = n \<Longrightarrow> c = c'"
  by (metis of_char_eq_iff)

lemma short_escape_inj:
  assumes "short_escape c = Some k" "short_escape c' = Some k"
  shows "c = c'"
  using assms unfolding short_escape_def Let_def
  by (auto split: if_splits intro: char_by_code)

lemma short_escape_not_u: "short_escape c = Some k \<Longrightarrow> k \<noteq> CHR ''u''"
  unfolding short_escape_def Let_def by (auto split: if_splits)

lemma plain_not_backslash: "plain_unit c \<Longrightarrow> c \<noteq> CHR 0x5C"
  unfolding plain_unit_def by auto

lemma plain_not_quote: "plain_unit c \<Longrightarrow> c \<noteq> CHR 0x22"
  unfolding plain_unit_def by auto

lemma not_plain_low: "\<not> plain_unit c \<Longrightarrow> short_escape c = None \<Longrightarrow> (of_char c :: nat) < 32"
  unfolding plain_unit_def short_escape_def Let_def by (auto split: if_splits)


lemma quote_unit_prefix_free:
  assumes "quote_unit c @ x = quote_unit c' @ y"
  shows "c = c' \<and> x = y"
proof (cases "plain_unit c")
  case True
  show ?thesis
  proof (cases "plain_unit c'")
    case c': True
    with True assms show ?thesis by (simp add: quote_unit_shape)
  next
    case False
    with True assms plain_not_backslash[of c] show ?thesis
      by (auto simp: quote_unit_shape split: option.splits)
  qed
next
  case False
  show ?thesis
  proof (cases "plain_unit c'")
    case True
    with False assms plain_not_backslash[of c'] show ?thesis
      by (auto simp: quote_unit_shape split: option.splits)
  next
    case c': False
    show ?thesis
    proof (cases "short_escape c")
      case None
      show ?thesis
      proof (cases "short_escape c'")
        case n': None
        from False c' None n' assms
        have e: "digit (of_char c div 16) = digit (of_char c' div 16)"
                "digit (of_char c mod 16) = digit (of_char c' mod 16)" "x = y"
          by (simp_all add: quote_unit_shape)
        from low_code[OF not_plain_low[OF False None] not_plain_low[OF c' n'] e(1,2)]
        have "c = c'" by (simp add: of_char_eq_iff)
        with e(3) show ?thesis by simp
      next
        case (Some k)
        with False c' None assms short_escape_not_u[OF Some] show ?thesis
          by (auto simp: quote_unit_shape)
      qed
    next
      case (Some k)
      show ?thesis
      proof (cases "short_escape c'")
        case None
        with False c' Some assms short_escape_not_u[OF Some] show ?thesis
          by (auto simp: quote_unit_shape)
      next
        case k': (Some k')
        with False c' Some assms have "k = k'" "x = y"
          by (simp_all add: quote_unit_shape)
        with Some k' show ?thesis by (auto intro: short_escape_inj)
      qed
    qed
  qed
qed

lemma quoted_units_inj:
  "concat (map quote_unit p) @ CHR 0x22 # x = concat (map quote_unit p') @ CHR 0x22 # y
     \<Longrightarrow> p = p' \<and> x = y"
proof (induction p arbitrary: p')
  case Nil
  show ?case
  proof (cases p')
    case Nil
    with Nil.prems show ?thesis by simp
  next
    case (Cons c cs)
    have "hd (quote_unit c) \<noteq> CHR 0x22 \<and> quote_unit c \<noteq> []"
      using plain_not_quote[of c] by (auto simp: quote_unit_shape split: option.splits)
    with Nil.prems Cons show ?thesis
      by (cases "quote_unit c") auto
  qed
next
  case (Cons a as)
  show ?case
  proof (cases p')
    case Nil
    have "hd (quote_unit a) \<noteq> CHR 0x22 \<and> quote_unit a \<noteq> []"
      using plain_not_quote[of a] by (auto simp: quote_unit_shape split: option.splits)
    with Cons.prems Nil show ?thesis
      by (cases "quote_unit a") auto
  next
    case c: (Cons c cs)
    with Cons.prems
    have "quote_unit a @ (concat (map quote_unit as) @ CHR 0x22 # x)
            = quote_unit c @ (concat (map quote_unit cs) @ CHR 0x22 # y)"
      by simp
    from quote_unit_prefix_free[OF this] Cons.IH[of cs] c show ?thesis by simp
  qed
qed

lemma QuoteJSONString_append_inj:
  "QuoteJSONString p @ x = QuoteJSONString p' @ y \<Longrightarrow> p = p' \<and> x = y"
  using quoted_units_inj[of p x p' y] by (simp add: QuoteJSONString_def)

lemma normalized_text:
  "hashRequest_normalized \<lparr>patient_id = JStr p, slot_datetime = JStr s\<rparr> =
     ''{'' @ QuoteJSONString ''patient_id'' @ '':'' @ QuoteJSONString p @ '',''
     @ QuoteJSONString ''slot_datetime'' @ '':'' @ QuoteJSONString s @ ''}''"
  by (simp add: hashRequest_normalized_def JSON_stringify_object_def)

lemma normalized_inj:
  "hashRequest_normalized \<lparr>patient_id = JStr p, slot_datetime = JStr s\<rparr> =
   hashRequest_normalized \<lparr>patient_id = JStr p', slot_datetime = JStr s'\<rparr>
     \<longleftrightarrow> p = p' \<and> s = s'"
proof
  assume "hashRequest_normalized \<lparr>patient_id = JStr p, slot_datetime = JStr s\<rparr> =
          hashRequest_normalized \<lparr>patient_id = JStr p', slot_datetime = JStr s'\<rparr>"
  then have "QuoteJSONString p @ ('','' @ QuoteJSONString ''slot_datetime'' @ '':'' @ QuoteJSONString s @ ''}'')
           = QuoteJSONString p' @ ('','' @ QuoteJSONString ''slot_datetime'' @ '':'' @ QuoteJSONString s' @ ''}'')"
    by (simp add: normalized_text)
  from QuoteJSONString_append_inj[OF this]
  have p: "p = p'" and "QuoteJSONString s @ ''}'' = QuoteJSONString s' @ ''}''"
    by simp_all
  from QuoteJSONString_append_inj[OF this(2)] p show "p = p' \<and> s = s'" by simp
qed simp


text \<open>
  C3, as the code has it. The fingerprint of a request with string fields is the digest
  of the text \<open>{"patient_id":P,"slot_datetime":S}\<close>, where \<open>P\<close> and \<open>S\<close> are the patient
  identifier and the slot text as received, each quoted as JSON; the slot is not
  normalized first. Two such requests give the digest the same text exactly when both
  fields are the same texts.
\<close>

theorem fingerprint_of_raw_fields:
  "hashRequest rt \<lparr>patient_id = JStr p, slot_datetime = JStr s\<rparr> =
     sha256_hex rt
       (''{'' @ QuoteJSONString ''patient_id'' @ '':'' @ QuoteJSONString p @ '',''
        @ QuoteJSONString ''slot_datetime'' @ '':'' @ QuoteJSONString s @ ''}'') \<and>
   ((hashRequest_normalized \<lparr>patient_id = JStr p, slot_datetime = JStr s\<rparr> =
     hashRequest_normalized \<lparr>patient_id = JStr p', slot_datetime = JStr s'\<rparr>)
      = (p = p' \<and> s = s'))"
  using normalized_inj[of p s p' s'] by (simp add: hashRequest_def normalized_text)

text \<open>
  Three spellings of one instant for one patient: the three texts given to the digest
  differ, and so do the fingerprints on the example platform.
\<close>

theorem respelled_slot_changes_fingerprint:
  "new_Date example_runtime (slot_datetime example_request) = Some 1893492000000 \<and>
   new_Date example_runtime (slot_datetime respelled_request) = Some 1893492000000 \<and>
   new_Date example_runtime (slot_datetime zoned_request) = Some 1893492000000 \<and>
   patient_id respelled_request = patient_id example_request \<and>
   patient_id zoned_request = patient_id example_request \<and>
   hashRequest_normalized respelled_request \<noteq> hashRequest_normalized example_request \<and>
   hashRequest_normalized zoned_request \<noteq> hashRequest_normalized example_request \<and>
   hashRequest example_runtime respelled_request \<noteq> hashRequest example_runtime example_request"
  by code_simp

subsection \<open>The validator\<close>

lemma not_string_cases:
  "\<not> typeof_string v \<longleftrightarrow> (\<forall>s. v \<noteq> JStr s)"
  by (cases v) auto

lemma patient_id_check:
  "(\<not> truthy v \<or> \<not> typeof_string v \<or> (case v of JStr s \<Rightarrow> trim s = [] | _ \<Rightarrow> False))
     = spec_patient_id_invalid v"
  by (cases v) (auto simp: spec_patient_id_invalid_def trim_def)

lemma validateRequest_alt:
  "validateRequest rt clock request =
     (if spec_patient_id_invalid (patient_id request)
      then Some (failure INVALID_PATIENT_ID
                  ''patient_id is required and must be a non-empty string'' None)
      else if \<not> truthy (slot_datetime request) \<or> \<not> typeof_string (slot_datetime request)
      then Some (failure INVALID_SLOT
                  ''slot_datetime is required and must be a valid ISO 8601 datetime string'' None)
      else
        (case new_Date rt (slot_datetime request) of
           None \<Rightarrow>
             Some (failure INVALID_SLOT ''slot_datetime must be a valid ISO 8601 datetime string''
                    (Some [(''received'', slot_datetime request)]))
         | Some slotDate \<Rightarrow>
             if slotDate < clock
             then Some (failure SLOT_IN_PAST ''Cannot book appointments in the past''
                         (Some [(''slot_datetime'', slot_datetime request)]))
             else None))"
  by (simp only: validateRequest_def patient_id_check[symmetric])

lemma validateRequest_code:
  assumes "Date_parse rt [] = None"
  shows "(case validateRequest rt clock request of
            None \<Rightarrow> spec_validate rt clock request = None
          | Some resp \<Rightarrow>
              success resp = False \<and> data resp = None \<and>
              map_option code (error resp) = spec_validate rt clock request \<and>
              spec_validate rt clock request \<noteq> None)"
proof (cases "spec_patient_id_invalid (patient_id request)")
  case True
  then show ?thesis
    by (simp add: validateRequest_alt spec_validate_def failure_def)
next
  case False
  show ?thesis
  proof (cases "slot_datetime request")
    case (JStr s)
    with False assms show ?thesis
      by (auto simp: validateRequest_alt spec_validate_def failure_def
                     spec_slot_invalid_def spec_slot_in_past_def split: option.splits)
  qed (use False in \<open>simp_all add: validateRequest_alt spec_validate_def
                       failure_def spec_slot_invalid_def\<close>)
qed

lemma storeIdempotencyKey_not_Inl:
  "storeIdempotencyKey rt d fault k request st body \<noteq> Inl e"
  using storeIdempotencyKey_Inr[of rt d fault k request st body] by auto

lemma book_invalid_request:
  assumes "validateRequest rt (now env) request = Some resp"
  shows "appointments (snd (book rt env d k request)) = appointments d \<and>
         (checkIdempotencyKey rt d (get_fault env) k request = Inr NotFound \<longrightarrow>
            fst (book rt env d k request) = \<lparr>http_status = 400, http_body = resp\<rparr>)"
  using assms
  by (auto simp: book_def storeIdempotencyKey_not_Inl
           split: sum.splits IdempotencyCheck.splits dest!: store_appointments)

text \<open>
  C7. \<open>validateRequest\<close> is a function of the request and the clock alone, defined on
  every raw request, and on a platform whose parser rejects the empty text it answers as
  the specification lists: INVALID_PATIENT_ID, INVALID_SLOT, SLOT_IN_PAST, or valid, the
  first case that applies. The route asks it once the lookup has found no record under
  the key; when it then reports an error, \<open>book\<close> returns that error with status 400, and
  whatever the key holds \<open>book\<close> adds no row to the appointments for a request it rejects.
\<close>

theorem validateRequest_as_specified:
  assumes "Date_parse rt [] = None"
  shows "(case validateRequest rt clock request of
            None \<Rightarrow> spec_validate rt clock request = None
          | Some resp \<Rightarrow>
              success resp = False \<and> data resp = None \<and>
              map_option code (error resp) = spec_validate rt clock request \<and>
              spec_validate rt clock request \<noteq> None) \<and>
         (\<forall>env d k resp.
            validateRequest rt (now env) request = Some resp \<longrightarrow>
              appointments (snd (book rt env d k request)) = appointments d \<and>
              (checkIdempotencyKey rt d (get_fault env) k request = Inr NotFound \<longrightarrow>
                 fst (book rt env d k request) = \<lparr>http_status = 400, http_body = resp\<rparr>))"
  using validateRequest_code[OF assms] book_invalid_request by blast

theorem validateRequest_as_specified_witness:
  "Date_parse example_runtime [] = None \<and>
   validateRequest example_runtime (now later_env) example_request = Some past_response \<and>
   spec_validate example_runtime (now later_env) example_request = Some SLOT_IN_PAST \<and>
   appointments (snd (book example_runtime later_env empty_db ''K2'' example_request)) = [] \<and>
   fst (book example_runtime later_env empty_db ''K2'' example_request)
     = \<lparr>http_status = 400, http_body = past_response\<rparr>"
proof -
  have 1: "Date_parse example_runtime [] = None" by code_simp
  have 2: "validateRequest example_runtime (now later_env) example_request = Some past_response"
    by code_simp
  have 3: "checkIdempotencyKey example_runtime empty_db (get_fault later_env) ''K2''
             example_request = Inr NotFound"
    by code_simp
  have 4: "map_option code (error past_response) = Some SLOT_IN_PAST"
    by (simp add: past_response_def failure_def)
  have 5: "appointments empty_db = []" by (simp add: empty_db_def)
  from validateRequest_as_specified[OF 1, of "now later_env" example_request]
  have a: "map_option code (error past_response)
             = spec_validate example_runtime (now later_env) example_request"
    and b: "appointments (snd (book example_runtime later_env empty_db ''K2'' example_request))
              = appointments empty_db"
    and c: "fst (book example_runtime later_env empty_db ''K2'' example_request)
              = \<lparr>http_status = 400, http_body = past_response\<rparr>"
    using 2 3 by (simp_all add: 2)
  from 1 2 a b c show ?thesis by (simp add: 4 5)
qed

subsection \<open>The voice webhook\<close>

lemma getBookedSlot_keys [simp]:
  "getBookedSlot (d\<lparr>idempotency_keys := K\<rparr>) slot = getBookedSlot d slot"
  by (simp add: getBookedSlot_def)

lemma insertAppointment_keys_irrelevant:
  "insertAppointment (d\<lparr>idempotency_keys := K\<rparr>) i p slot =
     map_sum id (\<lambda>d'. d'\<lparr>idempotency_keys := K\<rparr>) (insertAppointment d i p slot)"
  by (auto simp: insertAppointment_def split: sum.splits)

lemma transaction_keys_irrelevant:
  "bookAppointmentTransaction (d\<lparr>idempotency_keys := K\<rparr>) fault i p slot =
     map_sum id (\<lambda>(r, d'). (r, d'\<lparr>idempotency_keys := K\<rparr>))
       (bookAppointmentTransaction d fault i p slot)"
  by (auto simp: bookAppointmentTransaction_def insertAppointment_keys_irrelevant
           split: option.splits sum.splits)

lemma bookAppointment_keys_irrelevant:
  "bookAppointment rt (d\<lparr>idempotency_keys := K\<rparr>) fault i request =
     map_sum id (\<lambda>(res, d'). (res, d'\<lparr>idempotency_keys := K\<rparr>))
       (bookAppointment rt d fault i request)"
  by (auto simp: bookAppointment_def transaction_keys_irrelevant Let_def
           split: option.splits sum.splits TransactionResult.splits prod.splits)

lemma alternatives_loop_keys [simp]:
  "alternatives_loop rt (d\<lparr>idempotency_keys := K\<rparr>) fault date hours alts =
     alternatives_loop rt d fault date hours alts"
  by (induction rt d fault date hours alts rule: alternatives_loop.induct)
     (auto split: sum.splits option.splits)

lemma findAlternativeSlots_keys [simp]:
  "findAlternativeSlots rt (d\<lparr>idempotency_keys := K\<rparr>) fault date =
     findAlternativeSlots rt d fault date"
  by (simp only: findAlternativeSlots_def alternatives_loop_keys)

lemma visible_store:
  "visible (case storeIdempotencyKey rt d fault k request st body of
              Inl e \<Rightarrow> Inl e | Inr d'' \<Rightarrow> Inr (r, d'')) = Inr (r, appointments d)"
  using storeIdempotencyKey_Inr[of rt d fault k request st body]
  by (auto simp: visible_def dest: store_appointments)

lemma bookAndReply_ignores_keys:
  "visible (bookAndReply rt env (d\<lparr>idempotency_keys := K\<rparr>) args s sd p) =
   visible (bookAndReply rt env d args s sd p)"
proof (cases "validateRequest rt (now_validate env) \<lparr>patient_id = JStr p, slot_datetime = JStr s\<rparr>")
  case (Some err)
  then show ?thesis by (auto simp: bookAndReply_def visible_def)
next
  case None
  show ?thesis
  proof (cases "bookAppointment rt d (booking_fault env) (appointment_uuid env)
                  \<lparr>patient_id = JStr p, slot_datetime = JStr s\<rparr>")
    case (Inl e)
    with None show ?thesis
      by (simp add: bookAndReply_def bookAppointment_keys_irrelevant visible_def)
  next
    case (Inr pr)
    obtain result d' where pr: "pr = (result, d')" by (cases pr)
    show ?thesis
    proof (cases "success (response result)")
      case True
      with None Inr pr show ?thesis
        by (simp add: bookAndReply_def bookAppointment_keys_irrelevant visible_store)
    next
      case False
      with None Inr pr show ?thesis
        by (auto simp: bookAndReply_def bookAppointment_keys_irrelevant visible_def
                 split: sum.splits)
    qed
  qed
qed

lemma visible_Inr: "visible (Inr (r, d)) = Inr (r, appointments d)"
  by (simp add: visible_def)

lemma visible_Inl: "visible (Inl e) = Inl e"
  by (simp add: visible_def)

lemma handleBookAppointment_ignores_keys:
  "visible (handleBookAppointment rt env (d\<lparr>idempotency_keys := K\<rparr>) args) =
   visible (handleBookAppointment rt env d args)"
  unfolding handleBookAppointment_def Let_def
  by (simp add: bookAndReply_ignores_keys visible_Inr visible_Inl
           split: option.splits sum.splits Check.splits)


lemma reply_not_success [simp]: "\<not> reply_success (reply m)"
  by (simp add: reply_success_def reply_def)

lemma slot_taken_reply_not_success [simp]: "\<not> reply_success (slot_taken_reply a)"
  by (simp add: reply_success_def slot_taken_reply_def)

lemma failed_reply_not_success [simp]:
  "\<not> reply_success (JObj ((''success'', JBool False) # kvs))"
  by (simp add: reply_success_def)

lemma bookAndReply_success:
  assumes "bookAndReply rt env d args s sd p = Inr (r, d1)" "reply_success r"
  shows "\<exists>result dm.
           validateRequest rt (now_validate env) \<lparr>patient_id = JStr p, slot_datetime = JStr s\<rparr>
             = None \<and>
           bookAppointment rt d (booking_fault env) (appointment_uuid env)
             \<lparr>patient_id = JStr p, slot_datetime = JStr s\<rparr> = Inr (result, dm) \<and>
           success (response result) \<and>
           storeIdempotencyKey rt dm (store_fault env) (key_uuid env)
             \<lparr>patient_id = JStr p, slot_datetime = JStr s\<rparr> (status result) (response result)
             = Inr d1"
  using assms unfolding bookAndReply_def Let_def
  by (auto split: if_splits option.splits sum.splits prod.splits)

lemma handleBookAppointment_success:
  assumes "handleBookAppointment rt env d args = Inr (r, d1)" "reply_success r"
  shows "\<exists>s sd p.
           bookAndReply rt env d args s sd p = Inr (r, d1) \<and>
           (\<forall>env2 d2. today_parse env2 = today_parse env \<and> today_weekday env2 = today_weekday env
              \<longrightarrow> handleBookAppointment rt env2 d2 args = bookAndReply rt env2 d2 args s sd p)"
  using assms unfolding handleBookAppointment_def Let_def
  by (auto split: if_splits option.splits sum.splits Check.splits)

lemma bookAppointment_success:
  assumes "bookAppointment rt d fault i request = Inr (result, dm)" "success (response result)"
  shows "status result = 201 \<and>
         (\<exists>t. new_Date rt (slot_datetime request) = Some t \<and>
              getBookedSlot dm (toISOString t) \<noteq> None)"
  using assms
  by (auto simp: bookAppointment_def bookAppointmentTransaction_def Let_def
                 slot_taken_result_def failure_def getBookedSlot_None_iff
           split: option.splits sum.splits TransactionResult.splits if_splits prod.splits
           dest!: insertAppointment_booked_slots)

lemma bookAppointment_taken:
  assumes "new_Date rt (slot_datetime request) = Some t"
      and "getBookedSlot d (toISOString t) \<noteq> None"
  shows "bookAppointment rt d None i request = Inr (slot_taken_result (toISOString t), d)"
  using assms by (auto simp: bookAppointment_def bookAppointmentTransaction_def)

lemma getBookedSlot_appointments:
  "appointments d1 = appointments d2 \<Longrightarrow> getBookedSlot d1 slot = getBookedSlot d2 slot"
  by (simp add: getBookedSlot_def)

lemma handleBookAppointment_keys:
  assumes "handleBookAppointment rt env d args = Inr (r, d1)"
  shows "(\<forall>k. k \<noteq> key_uuid env \<longrightarrow> getIdempotencyKey d1 k = getIdempotencyKey d k) \<and>
         (\<forall>row. getIdempotencyKey d (key_uuid env) = Some row \<longrightarrow>
                getIdempotencyKey d1 (key_uuid env) = Some row)"
  using handleBookAppointment_effect[OF assms]
  by (auto simp: getIdempotencyKey_insert bookAppointment_getIdempotencyKey
           dest!: storeIdempotencyKey_cases split: option.splits)

lemma handleBookAppointment_records:
  assumes "handleBookAppointment rt env d args = Inr (r, d1)" "reply_success r"
      and "store_fault env = None" "getIdempotencyKey d (key_uuid env) = None"
  shows "\<exists>row. getIdempotencyKey d1 (key_uuid env) = Some row \<and>
               response_status row = 201 \<and> success (response_body row)"
proof -
  from handleBookAppointment_success[OF assms(1,2)] obtain s sd p
    where "bookAndReply rt env d args s sd p = Inr (r, d1)" by blast
  from bookAndReply_success[OF this assms(2)] obtain result dm where
    b: "bookAppointment rt d (booking_fault env) (appointment_uuid env)
          \<lparr>patient_id = JStr p, slot_datetime = JStr s\<rparr> = Inr (result, dm)"
    and ok: "success (response result)"
    and st: "storeIdempotencyKey rt dm (store_fault env) (key_uuid env)
               \<lparr>patient_id = JStr p, slot_datetime = JStr s\<rparr> (status result) (response result)
               = Inr d1"
    by blast
  have "getIdempotencyKey dm (key_uuid env) = None"
    using b assms(4) by (simp add: bookAppointment_getIdempotencyKey)
  with st assms(3) bookAppointment_success[OF b ok] ok show ?thesis
    by (auto simp: storeIdempotencyKey_def insertIdempotencyKey_run_def getIdempotencyKey_insert)
qed

lemma handleBookAppointment_again:
  assumes "handleBookAppointment rt env d args = Inr (r, d1)" "reply_success r"
      and "today_parse env2 = today_parse env" "today_weekday env2 = today_weekday env"
      and "now_validate env2 = now_validate env" "booking_fault env2 = None"
  shows "\<exists>slotDate. handleBookAppointment rt env2 d1 args =
           (case findAlternativeSlots rt d1 (query_fault env2) slotDate of
              Inl e \<Rightarrow> Inl e
            | Inr alternatives \<Rightarrow> Inr (slot_taken_reply alternatives, d1))"
proof -
  from handleBookAppointment_success[OF assms(1,2)] obtain s sd p
    where first: "bookAndReply rt env d args s sd p = Inr (r, d1)"
      and again: "handleBookAppointment rt env2 d1 args = bookAndReply rt env2 d1 args s sd p"
    using assms(3,4) by blast
  let ?req = "\<lparr>patient_id = JStr p, slot_datetime = JStr s\<rparr>"
  from bookAndReply_success[OF first assms(2)] obtain result dm where
    v: "validateRequest rt (now_validate env) ?req = None"
    and b: "bookAppointment rt d (booking_fault env) (appointment_uuid env) ?req = Inr (result, dm)"
    and ok: "success (response result)"
    and st: "storeIdempotencyKey rt dm (store_fault env) (key_uuid env) ?req
               (status result) (response result) = Inr d1"
    by blast
  from bookAppointment_success[OF b ok] obtain t where
    t: "new_Date rt (slot_datetime ?req) = Some t" "getBookedSlot dm (toISOString t) \<noteq> None"
    by blast
  have "getBookedSlot d1 (toISOString t) \<noteq> None"
    using t(2) getBookedSlot_appointments[OF store_appointments[OF st]] by simp
  from bookAppointment_taken[OF t(1) this]
  have "bookAppointment rt d1 None (appointment_uuid env2) ?req
          = Inr (slot_taken_result (toISOString t), d1)" .
  with v assms(5,6) have
    "bookAndReply rt env2 d1 args s sd p =
       (case findAlternativeSlots rt d1 (query_fault env2) sd of
          Inl e \<Rightarrow> Inl e
        | Inr alternatives \<Rightarrow> Inr (slot_taken_reply alternatives, d1))"
    by (simp add: bookAndReply_def slot_taken_result_def failure_def)
  with again show ?thesis by metis
qed


text \<open>
  C10. A tool call of \<open>book_appointment\<close> never reads the idempotency table: its reply
  and what it does to the appointments are the same whatever records the table holds.
  The only key it can write is the random one it has just drawn, it overwrites no
  record, and a successful booking whose insertion the store accepts leaves the 201
  under that key when the key is new. The same tool call once more, at the same
  readings of the clock and with the transaction meeting no error, is not answered from
  any record: the transaction runs again, finds the slot taken, and the reply is
  SLOT_TAKEN with the alternatives (or the error of the search for them).
\<close>

theorem voice_booking_bypasses_idempotency:
  "visible (handleBookAppointment rt env (d\<lparr>idempotency_keys := K\<rparr>) args)
     = visible (handleBookAppointment rt env d args) \<and>
   (\<forall>r d1. handleBookAppointment rt env d args = Inr (r, d1) \<longrightarrow>
      (\<forall>k. k \<noteq> key_uuid env \<longrightarrow> getIdempotencyKey d1 k = getIdempotencyKey d k) \<and>
      (\<forall>row. getIdempotencyKey d (key_uuid env) = Some row \<longrightarrow>
             getIdempotencyKey d1 (key_uuid env) = Some row) \<and>
      (reply_success r \<longrightarrow>
         (store_fault env = None \<and> getIdempotencyKey d (key_uuid env) = None \<longrightarrow>
            (\<exists>row. getIdempotencyKey d1 (key_uuid env) = Some row \<and>
                   response_status row = 201 \<and> success (response_body row))) \<and>
         (\<forall>env2. today_parse env2 = today_parse env \<and> today_weekday env2 = today_weekday env \<and>
                 now_validate env2 = now_validate env \<and> booking_fault env2 = None \<longrightarrow>
            (\<exists>slotDate. handleBookAppointment rt env2 d1 args =
               (case findAlternativeSlots rt d1 (query_fault env2) slotDate of
                  Inl e \<Rightarrow> Inl e
                | Inr alternatives \<Rightarrow> Inr (slot_taken_reply alternatives, d1))))))"
proof -
  have a: "visible (handleBookAppointment rt env (d\<lparr>idempotency_keys := K\<rparr>) args)
             = visible (handleBookAppointment rt env d args)"
    by (rule handleBookAppointment_ignores_keys)
  have b: "(\<forall>k. k \<noteq> key_uuid env \<longrightarrow> getIdempotencyKey d1 k = getIdempotencyKey d k) \<and>
           (\<forall>row. getIdempotencyKey d (key_uuid env) = Some row \<longrightarrow>
                  getIdempotencyKey d1 (key_uuid env) = Some row) \<and>
           (reply_success r \<longrightarrow>
              (store_fault env = None \<and> getIdempotencyKey d (key_uuid env) = None \<longrightarrow>
                 (\<exists>row. getIdempotencyKey d1 (key_uuid env) = Some row \<and>
                        response_status row = 201 \<and> success (response_body row))) \<and>
              (\<forall>env2. today_parse env2 = today_parse env \<and>
                      today_weekday env2 = today_weekday env \<and>
                      now_validate env2 = now_validate env \<and> booking_fault env2 = None \<longrightarrow>
                 (\<exists>slotDate. handleBookAppointment rt env2 d1 args =
                    (case findAlternativeSlots rt d1 (query_fault env2) slotDate of
                       Inl e \<Rightarrow> Inl e
                     | Inr alternatives \<Rightarrow> Inr (slot_taken_reply alternatives, d1)))))"
    if h: "handleBookAppointment rt env d args = Inr (r, d1)" for r d1
  proof (intro conjI impI allI)
    fix k assume "k \<noteq> key_uuid env"
    with handleBookAppointment_keys[OF h]
    show "getIdempotencyKey d1 k = getIdempotencyKey d k" by blast
  next
    fix row assume "getIdempotencyKey d (key_uuid env) = Some row"
    with handleBookAppointment_keys[OF h]
    show "getIdempotencyKey d1 (key_uuid env) = Some row" by blast
  next
    assume s: "reply_success r"
       and "store_fault env = None \<and> getIdempotencyKey d (key_uuid env) = None"
    then show "\<exists>row. getIdempotencyKey d1 (key_uuid env) = Some row \<and>
                     response_status row = 201 \<and> success (response_body row)"
      using handleBookAppointment_records[OF h s] by blast
  next
    fix env2 :: voice_env
    assume s: "reply_success r"
       and e: "today_parse env2 = today_parse env \<and> today_weekday env2 = today_weekday env \<and>
               now_validate env2 = now_validate env \<and> booking_fault env2 = None"
    from e have e1: "today_parse env2 = today_parse env"
      and e2: "today_weekday env2 = today_weekday env"
      and e3: "now_validate env2 = now_validate env" and e4: "booking_fault env2 = None"
      by simp_all
    show "\<exists>slotDate. handleBookAppointment rt env2 d1 args =
            (case findAlternativeSlots rt d1 (query_fault env2) slotDate of
               Inl e \<Rightarrow> Inl e
             | Inr alternatives \<Rightarrow> Inr (slot_taken_reply alternatives, d1))"
      by (rule handleBookAppointment_again[OF h s e1 e2 e3 e4])
  qed
  from a b show ?thesis by blast
qed

theorem voice_booking_bypasses_idempotency_witness:
  "(case handleBookAppointment example_runtime voice_call empty_db voice_args of
      Inl e \<Rightarrow> False
    | Inr (r, d1) \<Rightarrow> reply_success r \<and> d1 = voice_db) \<and>
   getIdempotencyKey voice_db ''key-1'' \<noteq> None \<and>
   (\<exists>slotDate. handleBookAppointment example_runtime voice_call_again voice_db voice_args =
      (case findAlternativeSlots example_runtime voice_db (query_fault voice_call_again) slotDate of
         Inl e \<Rightarrow> Inl e
       | Inr alternatives \<Rightarrow> Inr (slot_taken_reply alternatives, voice_db))) \<and>
   handleBookAppointment example_runtime voice_call_again voice_db voice_args
     = Inr (slot_taken_reply ''9 AM or 10 AM'', voice_db)"
proof -
  have first: "(case handleBookAppointment example_runtime voice_call empty_db voice_args of
                  Inl e \<Rightarrow> False
                | Inr (r, d1) \<Rightarrow> reply_success r \<and> d1 = voice_db)"
    by code_simp
  then obtain r where r: "handleBookAppointment example_runtime voice_call empty_db voice_args
                            = Inr (r, voice_db)" "reply_success r"
    by (auto split: sum.splits prod.splits)
  have env: "today_parse voice_call_again = today_parse voice_call \<and>
             today_weekday voice_call_again = today_weekday voice_call \<and>
             now_validate voice_call_again = now_validate voice_call \<and>
             booking_fault voice_call_again = None"
    by (simp add: voice_call_again_def voice_call_def)
  have key: "getIdempotencyKey voice_db ''key-1'' \<noteq> None"
    by code_simp
  have again: "handleBookAppointment example_runtime voice_call_again voice_db voice_args
                 = Inr (slot_taken_reply ''9 AM or 10 AM'', voice_db)"
    by code_simp
  from voice_booking_bypasses_idempotency
         [where rt = example_runtime and env = voice_call and d = empty_db and K = "[]"
            and args = voice_args] r env
  have "\<exists>slotDate. handleBookAppointment example_runtime voice_call_again voice_db voice_args =
          (case findAlternativeSlots example_runtime voice_db (query_fault voice_call_again)
                  slotDate of
             Inl e \<Rightarrow> Inl e
           | Inr alternatives \<Rightarrow> Inr (slot_taken_reply alternatives, voice_db))"
    by blast
  with first key again show ?thesis by blast
qed

end
